theory Spec2Isabelle
  imports Main "HOL-Library.Word"
begin

unbundle bit_operations_syntax

section \<open>Machine types of \<^verbatim>\<open>font_manager.h\<close>\<close>

text \<open>
  The header works on \<^verbatim>\<open>int32_t\<close>, \<^verbatim>\<open>uint32_t\<close>, \<^verbatim>\<open>uint16_t\<close>,
  \<^verbatim>\<open>size_t\<close> and \<^verbatim>\<open>float\<close>. Integers are words, so that \<open>+\<close>, \<open>-\<close> and
  \<open>*\<close> wrap around; a signed reading is \<open>sint\<close>, signed comparison is \<open>\<le>s\<close>.
  \<^verbatim>\<open>size_t\<close> is taken as 64 bits wide where it is computed with; sizes and indices
  of a \<^verbatim>\<open>std::vector\<close> are natural numbers.
\<close>

type_synonym int32_t = "32 word"
type_synonym uint32_t = "32 word"
type_synonym uint16_t = "16 word"
type_synonym size_t = "64 word"

text \<open>\<^verbatim>\<open>mathfu::vec2i\<close>: two \<^verbatim>\<open>int32_t\<close> components, read with \<^verbatim>\<open>x()\<close> and \<^verbatim>\<open>y()\<close>.\<close>

type_synonym vec2i = "int32_t \<times> int32_t"

definition vec_x :: "vec2i \<Rightarrow> int32_t" where
  "vec_x v = fst v"

definition vec_y :: "vec2i \<Rightarrow> int32_t" where
  "vec_y v = snd v"

text \<open>Line 60: \<^verbatim>\<open>const int32_t kFreeTypeUnit = 64;\<close>\<close>

definition kFreeTypeUnit :: int32_t where
  "kFreeTypeUnit = 64"

text \<open>Line 83: \<^verbatim>\<open>const mathfu::vec2i kCaretPositionInvalid = mathfu::vec2i(-1, -1);\<close>\<close>

definition kCaretPositionInvalid :: vec2i where
  "kCaretPositionInvalid = (- 1, - 1)"

subsection \<open>\<^verbatim>\<open>float\<close>: IEEE 754 binary32\<close>

text \<open>
  A \<^verbatim>\<open>float\<close> is its 32-bit pattern: bit 31 the sign, bits 30..23 the biased
  exponent \<open>e\<close>, bits 22..0 the fraction \<open>m\<close>. The value it denotes is
  \<^item> \<open>e = 255\<close>, \<open>m = 0\<close>: an infinity of the given sign;
  \<^item> \<open>e = 255\<close>, \<open>m \<noteq> 0\<close>: a NaN;
  \<^item> \<open>e = 0\<close>: the subnormal number \<open>\<plusminus> m * 2^-149\<close> (both zeros among them);
  \<^item> otherwise \<open>\<plusminus> (2^23 + m) * 2^(e - 150)\<close>.
  Every finite value is an integer multiple of \<open>2^-149\<close>; \<open>FFinite i\<close> stands for
  \<open>i * 2^-149\<close>, which keeps the model in integer arithmetic.
\<close>

type_synonym float32 = "32 word"

datatype fval = FNaN | FInf bool | FFinite int

definition float_sign :: "float32 \<Rightarrow> bool" where
  "float_sign w = (2 ^ 31 \<le> unat w)"

definition float_exponent :: "float32 \<Rightarrow> nat" where
  "float_exponent w = (unat w div 2 ^ 23) mod 256"

definition float_fraction :: "float32 \<Rightarrow> nat" where
  "float_fraction w = unat w mod 2 ^ 23"

definition float_magnitude :: "nat \<Rightarrow> nat \<Rightarrow> nat" where
  "float_magnitude e m = (if e = 0 then m else (2 ^ 23 + m) * 2 ^ (e - 1))"

definition float_val :: "float32 \<Rightarrow> fval" where
  "float_val w =
     (if float_exponent w = 255
      then (if float_fraction w = 0 then FInf (float_sign w) else FNaN)
      else FFinite
        (if float_sign w then - int (float_magnitude (float_exponent w) (float_fraction w))
         else int (float_magnitude (float_exponent w) (float_fraction w))))"

text \<open>
  The comparisons of C++ on \<^verbatim>\<open>float\<close> operands are IEEE comparisons of the
  denoted values: a NaN is unordered (\<^verbatim>\<open>==\<close> and \<^verbatim>\<open>>\<close> are both false, also
  against itself), and the two zeros denote the same value.
\<close>

fun fval_eq :: "fval \<Rightarrow> fval \<Rightarrow> bool" where
  "fval_eq (FFinite a) (FFinite b) = (a = b)"
| "fval_eq (FInf s) (FInf t) = (s = t)"
| "fval_eq _ _ = False"

fun fval_gt :: "fval \<Rightarrow> fval \<Rightarrow> bool" where
  "fval_gt FNaN _ = False"
| "fval_gt _ FNaN = False"
| "fval_gt (FFinite a) (FFinite b) = (b < a)"
| "fval_gt (FFinite a) (FInf t) = t"
| "fval_gt (FInf s) (FFinite b) = (\<not> s)"
| "fval_gt (FInf s) (FInf t) = (\<not> s \<and> t)"

definition float_eq :: "float32 \<Rightarrow> float32 \<Rightarrow> bool" where
  "float_eq a b = fval_eq (float_val a) (float_val b)"

text \<open>
  Two classes of bit patterns, as \<^verbatim>\<open>std::isnan\<close> and a test for \<open>+0.0\<close> or \<open>-0.0\<close>
  would find them.
\<close>

definition float_is_nan :: "float32 \<Rightarrow> bool" where
  "float_is_nan w = (float_exponent w = 255 \<and> float_fraction w \<noteq> 0)"

definition float_is_zero :: "float32 \<Rightarrow> bool" where
  "float_is_zero w = (w = 0 \<or> w = 0x80000000)"

text \<open>
  Conversion of an \<^verbatim>\<open>int32_t\<close> to \<^verbatim>\<open>float\<close> (the usual arithmetic conversion
  in \<^verbatim>\<open>size_.y() > font_size_\<close>): the integer is rounded to 24 significant bits, to
  nearest, ties to even. \<open>sig_shift n\<close> is the number of low bits that do not fit.
\<close>

function sig_shift :: "nat \<Rightarrow> nat" where
  "sig_shift n = (if n < 2 ^ 24 then 0 else Suc (sig_shift (n div 2)))"
  by pat_completeness auto
termination
  by (relation "measure id") auto

declare sig_shift.simps [simp del]

definition round_to_float :: "nat \<Rightarrow> nat" where
  "round_to_float n =
     (let k = sig_shift n; q = n div 2 ^ k; r = n mod 2 ^ k
      in if 2 ^ k < 2 * r \<or> (2 * r = 2 ^ k \<and> odd q) then (q + 1) * 2 ^ k else q * 2 ^ k)"

definition int32_to_float :: "int32_t \<Rightarrow> fval" where
  "int32_to_float i =
     FFinite ((if sint i < 0 then - int (round_to_float (nat (- sint i)))
               else int (round_to_float (nat (sint i)))) * 2 ^ 149)"

text \<open>
  What "nearest, ties to even" says, apart from how it is computed: among the multiples
  of \<open>2^k\<close>, \<open>r\<close> is one nearest to \<open>n\<close>, and where two are equally near it is
  the even multiple. For \<open>n\<close> from \<open>2^(23 + k)\<close> up to \<open>2^(24 + k)\<close> the multiples
  of \<open>2^k\<close> are the numbers a \<^verbatim>\<open>float\<close> can hold; for \<open>k = 0\<close> the nearest one
  is \<open>n\<close> itself.
\<close>

definition nearest_even :: "nat \<Rightarrow> nat \<Rightarrow> nat \<Rightarrow> bool" where
  "nearest_even k n r =
     (2 ^ k dvd r \<and> 2 * \<bar>int r - int n\<bar> \<le> 2 ^ k \<and>
      (2 * \<bar>int r - int n\<bar> = 2 ^ k \<longrightarrow> even (r div 2 ^ k)))"

section \<open>\<^verbatim>\<open>TextAlignment\<close> and \<^verbatim>\<open>FontBufferParameters\<close>\<close>

text \<open>
  Lines 130 to 138. The enumerators are bit flags (\<^verbatim>\<open>kTextAlignmentRightJustify =
  kTextAlignmentJustify | kTextAlignmentRight\<close>), and the values of the enumeration are
  the values of three bits, which is also the width of the bit-field that stores one
  (line 269): a \<^verbatim>\<open>TextAlignment\<close> is a \<open>3 word\<close>.
\<close>

type_synonym TextAlignment = "3 word"

definition kTextAlignmentLeft :: TextAlignment where
  "kTextAlignmentLeft = 0"

definition kTextAlignmentRight :: TextAlignment where
  "kTextAlignmentRight = 1"

definition kTextAlignmentCenter :: TextAlignment where
  "kTextAlignmentCenter = 2"

definition kTextAlignmentJustify :: TextAlignment where
  "kTextAlignmentJustify = 4"

definition kTextAlignmentLeftJustify :: TextAlignment where
  "kTextAlignmentLeftJustify = kTextAlignmentJustify"

definition kTextAlignmentRightJustify :: TextAlignment where
  "kTextAlignmentRightJustify = kTextAlignmentJustify OR kTextAlignmentRight"

definition kTextAlignmentCenterJustify :: TextAlignment where
  "kTextAlignmentCenterJustify = kTextAlignmentJustify OR kTextAlignmentCenter"

text \<open>
  \<^verbatim>\<open>GlyphFlags\<close> is declared in \<^verbatim>\<open>glyph_cache.h\<close>; this header stores one in a
  bit-field two bits wide (line 268), so a value is taken as a \<open>2 word\<close>.
\<close>

type_synonym GlyphFlags = "2 word"

text \<open>
  Lines 258 to 275. \<^verbatim>\<open>HashedId\<close> is declared in \<^verbatim>\<open>flatui_util.h\<close> and stays a
  type parameter. The anonymous union overlays \<^verbatim>\<open>uint32_t flags_value_\<close> with the
  bit-fields \<^verbatim>\<open>caret_info:1\<close>, \<^verbatim>\<open>glyph_flags:2\<close>, \<^verbatim>\<open>text_alignement:3\<close>; the record
  keeps the 32-bit word, and the bit-fields are views of its low six bits, allocated
  from the least significant bit in declaration order.
\<close>

record 'h FontBufferParameters =
  font_id :: 'h
  text_id :: 'h
  font_size :: float32
  size_vec :: vec2i
  flags_value :: uint32_t

definition flags_caret_info :: "uint32_t \<Rightarrow> bool" where
  "flags_caret_info w = bit w 0"

definition flags_glyph_flags :: "uint32_t \<Rightarrow> GlyphFlags" where
  "flags_glyph_flags w = ucast (drop_bit 1 w)"

definition flags_text_alignement :: "uint32_t \<Rightarrow> TextAlignment" where
  "flags_text_alignement w = ucast (drop_bit 3 w)"

definition set_flags_caret_info :: "bool \<Rightarrow> uint32_t \<Rightarrow> uint32_t" where
  "set_flags_caret_info c w = (w AND NOT 1) OR (if c then 1 else 0)"

definition set_flags_glyph_flags :: "GlyphFlags \<Rightarrow> uint32_t \<Rightarrow> uint32_t" where
  "set_flags_glyph_flags g w = (w AND NOT 6) OR push_bit 1 (ucast g)"

definition set_flags_text_alignement :: "TextAlignment \<Rightarrow> uint32_t \<Rightarrow> uint32_t" where
  "set_flags_text_alignement a w = (w AND NOT 56) OR push_bit 3 (ucast a)"

text \<open>
  Lines 147 to 152, the default constructor; \<^verbatim>\<open>kNullHash\<close> (of \<^verbatim>\<open>flatui_util.h\<close>)
  is its argument.
\<close>

definition FontBufferParameters_default :: "'h \<Rightarrow> 'h FontBufferParameters" where
  "FontBufferParameters_default kNullHash =
     \<lparr>font_id = kNullHash, text_id = kNullHash, font_size = 0, size_vec = (0, 0),
      flags_value = 0\<rparr>"

text \<open>
  Lines 167 to 177, the constructor from a tuple. It has no member initialiser list and
  never assigns \<^verbatim>\<open>flags_value_\<close>: it assigns the three bit-fields, one after the other,
  into whatever the storage of the union holds. That previous content is the first
  argument, \<open>storage\<close>.
\<close>

definition FontBufferParameters_init ::
  "uint32_t \<Rightarrow> 'h \<Rightarrow> 'h \<Rightarrow> float32 \<Rightarrow> vec2i \<Rightarrow> TextAlignment \<Rightarrow> GlyphFlags \<Rightarrow> bool
   \<Rightarrow> 'h FontBufferParameters" where
  "FontBufferParameters_init storage fid tid fsize sz text_alignment glyph_flags caret_info =
     \<lparr>font_id = fid, text_id = tid, font_size = fsize, size_vec = sz,
      flags_value =
        set_flags_caret_info caret_info
          (set_flags_glyph_flags glyph_flags
            (set_flags_text_alignement text_alignment storage))\<rparr>"

text \<open>Lines 187 to 191, \<^verbatim>\<open>operator==\<close>.\<close>

definition operator_eq :: "'h FontBufferParameters \<Rightarrow> 'h FontBufferParameters \<Rightarrow> bool" where
  "operator_eq this other =
     (font_id this = font_id other \<and> text_id this = text_id other \<and>
      float_eq (font_size this) (font_size other) \<and>
      vec_x (size_vec this) = vec_x (size_vec other) \<and>
      vec_y (size_vec this) = vec_y (size_vec other) \<and>
      flags_value this = flags_value other)"

text \<open>
  Lines 199 to 207, \<^verbatim>\<open>operator()\<close>, the hash. The first line reads \<^verbatim>\<open>font_id_\<close>
  and \<^verbatim>\<open>text_id_\<close> of the hasher object itself (\<open>this\<close>), not of \<open>key\<close>; \<^verbatim>\<open>>>\<close>
  binds tighter than \<^verbatim>\<open>^\<close>, so each later line is \<^verbatim>\<open>v ^ ((h << 1) >> 1)\<close>.
  \<^verbatim>\<open>std::hash<float>\<close> and \<^verbatim>\<open>std::hash<int32_t>\<close> are the standard library's and
  are arguments.
\<close>

definition operator_hash ::
  "(float32 \<Rightarrow> size_t) \<Rightarrow> (int32_t \<Rightarrow> size_t) \<Rightarrow> ('h::len) word FontBufferParameters
   \<Rightarrow> 'h word FontBufferParameters \<Rightarrow> size_t" where
  "operator_hash hash_float hash_int32 this key =
     (let v0 = ucast (drop_bit 1 (font_id this XOR push_bit 1 (text_id this)));
          v1 = v0 XOR drop_bit 1 (push_bit 1 (hash_float (font_size key)));
          v2 = v1 XOR drop_bit 1 (push_bit 1 (hash_int32 (flags_value key)));
          v3 = v2 XOR drop_bit 1 (push_bit 1 (hash_int32 (vec_x (size_vec key))));
          v4 = v3 XOR drop_bit 1 (push_bit 1 (hash_int32 (vec_y (size_vec key))))
      in v4)"

text \<open>Lines 213 to 229, the getters.\<close>

definition get_size :: "'h FontBufferParameters \<Rightarrow> vec2i" where
  "get_size p = size_vec p"

definition get_font_size :: "'h FontBufferParameters \<Rightarrow> float32" where
  "get_font_size p = font_size p"

definition get_text_alignment :: "'h FontBufferParameters \<Rightarrow> TextAlignment" where
  "get_text_alignment p = flags_text_alignement (flags_value p)"

definition get_glyph_flags :: "'h FontBufferParameters \<Rightarrow> GlyphFlags" where
  "get_glyph_flags p = flags_glyph_flags (flags_value p)"

definition get_caret_info_flag :: "'h FontBufferParameters \<Rightarrow> bool" where
  "get_caret_info_flag p = flags_caret_info (flags_value p)"

text \<open>
  Lines 236 to 244. The product is an \<^verbatim>\<open>int32_t\<close> product; where it overflows
  (which C++ leaves undefined) the model takes the two's-complement result.
\<close>

definition get_line_length :: "'h FontBufferParameters \<Rightarrow> int32_t" where
  "get_line_length p =
     (let alignment = get_text_alignment p
      in if alignment = kTextAlignmentLeft \<or> alignment = kTextAlignmentCenter then 0
         else vec_x (size_vec p) * kFreeTypeUnit)"

text \<open>
  Lines 247 to 256. In \<^verbatim>\<open>size_.y() > font_size_\<close> the height is converted to
  \<^verbatim>\<open>float\<close> and the comparison is the IEEE one.
\<close>

definition get_multi_line_setting :: "'h FontBufferParameters \<Rightarrow> bool" where
  "get_multi_line_setting p =
     (if vec_x (size_vec p) = 0 then False
      else if get_text_alignment p \<noteq> kTextAlignmentLeft then True
      else vec_y (size_vec p) = 0 \<or>
           fval_gt (int32_to_float (vec_y (size_vec p))) (float_val (font_size p)))"

section \<open>\<^verbatim>\<open>FontMetrics\<close>\<close>

text \<open>
  A failed \<^verbatim>\<open>assert\<close> aborts the program; an operation that asserts returns
  \<open>Inl AssertionFailed\<close> there. The assertions are taken as compiled in (a build
  with \<^verbatim>\<open>NDEBUG\<close> has none of them). Reading a \<^verbatim>\<open>std::vector\<close> at an index
  that is not below its size is \<open>Inl OutOfBoundsRead\<close>, and a \<^verbatim>\<open>std::bad_alloc\<close>
  thrown by an allocation is \<open>Inl BadAlloc\<close>.
\<close>

datatype error = AssertionFailed | OutOfBoundsRead | BadAlloc

text \<open>Lines 721 to 744, the five \<^verbatim>\<open>int32_t\<close> members.\<close>

record FontMetrics =
  base_line :: int32_t
  internal_leading :: int32_t
  ascender :: int32_t
  descender :: int32_t
  external_leading :: int32_t

text \<open>Lines 638 to 643, the default constructor.\<close>

definition FontMetrics_default :: FontMetrics where
  "FontMetrics_default =
     \<lparr>base_line = 0, internal_leading = 0, ascender = 0, descender = 0, external_leading = 0\<rparr>"

text \<open>Lines 646 to 657: the members are initialised, then the four assertions run in order.\<close>

definition FontMetrics_init ::
  "int32_t \<Rightarrow> int32_t \<Rightarrow> int32_t \<Rightarrow> int32_t \<Rightarrow> int32_t \<Rightarrow> error + FontMetrics" where
  "FontMetrics_init bl il asc desc el =
     (if \<not> 0 \<le>s il then Inl AssertionFailed
      else if \<not> 0 \<le>s asc then Inl AssertionFailed
      else if \<not> desc \<le>s 0 then Inl AssertionFailed
      else if \<not> el \<le>s 0 then Inl AssertionFailed
      else Inr \<lparr>base_line = bl, internal_leading = il, ascender = asc, descender = desc,
                external_leading = el\<rparr>)"

text \<open>Lines 668 to 714, the setters; \<^verbatim>\<open>set_base_line\<close> asserts nothing.\<close>

definition set_base_line :: "int32_t \<Rightarrow> FontMetrics \<Rightarrow> FontMetrics" where
  "set_base_line v m = m\<lparr>base_line := v\<rparr>"

definition set_internal_leading :: "int32_t \<Rightarrow> FontMetrics \<Rightarrow> error + FontMetrics" where
  "set_internal_leading v m =
     (if \<not> 0 \<le>s v then Inl AssertionFailed else Inr (m\<lparr>internal_leading := v\<rparr>))"

definition set_ascender :: "int32_t \<Rightarrow> FontMetrics \<Rightarrow> error + FontMetrics" where
  "set_ascender v m =
     (if \<not> 0 \<le>s v then Inl AssertionFailed else Inr (m\<lparr>ascender := v\<rparr>))"

definition set_descender :: "int32_t \<Rightarrow> FontMetrics \<Rightarrow> error + FontMetrics" where
  "set_descender v m =
     (if \<not> v \<le>s 0 then Inl AssertionFailed else Inr (m\<lparr>descender := v\<rparr>))"

definition set_external_leading :: "int32_t \<Rightarrow> FontMetrics \<Rightarrow> error + FontMetrics" where
  "set_external_leading v m =
     (if \<not> v \<le>s 0 then Inl AssertionFailed else Inr (m\<lparr>external_leading := v\<rparr>))"

text \<open>Lines 717 to 719; the sum is an \<^verbatim>\<open>int32_t\<close> sum.\<close>

definition total :: "FontMetrics \<Rightarrow> int32_t" where
  "total m = internal_leading m + ascender m - descender m - external_leading m"

text \<open>
  A call of one of the five setters, and a sequence of such calls, which stops at the
  first failed assertion.
\<close>

datatype metric_update =
  SetBaseLine int32_t
  | SetInternalLeading int32_t
  | SetAscender int32_t
  | SetDescender int32_t
  | SetExternalLeading int32_t

fun apply_update :: "FontMetrics \<Rightarrow> metric_update \<Rightarrow> error + FontMetrics" where
  "apply_update m (SetBaseLine v) = Inr (set_base_line v m)"
| "apply_update m (SetInternalLeading v) = set_internal_leading v m"
| "apply_update m (SetAscender v) = set_ascender v m"
| "apply_update m (SetDescender v) = set_descender v m"
| "apply_update m (SetExternalLeading v) = set_external_leading v m"

fun apply_updates :: "FontMetrics \<Rightarrow> metric_update list \<Rightarrow> error + FontMetrics" where
  "apply_updates m [] = Inr m"
| "apply_updates m (u # us) =
     (case apply_update m u of Inl e \<Rightarrow> Inl e | Inr m' \<Rightarrow> apply_updates m' us)"

text \<open>
  The sign constraints on a \<^verbatim>\<open>FontMetrics\<close>, and on the argument of a setter.
\<close>

definition metrics_ok :: "FontMetrics \<Rightarrow> bool" where
  "metrics_ok m =
     (0 \<le>s internal_leading m \<and> 0 \<le>s ascender m \<and> descender m \<le>s 0 \<and>
      external_leading m \<le>s 0)"

fun update_allowed :: "metric_update \<Rightarrow> bool" where
  "update_allowed (SetBaseLine v) = True"
| "update_allowed (SetInternalLeading v) = (0 \<le>s v)"
| "update_allowed (SetAscender v) = (0 \<le>s v)"
| "update_allowed (SetDescender v) = (v \<le>s 0)"
| "update_allowed (SetExternalLeading v) = (v \<le>s 0)"

text \<open>
  An update grows the metrics when it does not lower the internal leading or the
  ascender and does not raise the descender or the external leading (which are at most
  0, so their magnitudes do not shrink). \<open>total_int\<close> is the total height as an integer,
  without wrap-around.
\<close>

fun growth_only :: "FontMetrics \<Rightarrow> metric_update \<Rightarrow> bool" where
  "growth_only m (SetBaseLine v) = True"
| "growth_only m (SetInternalLeading v) = (internal_leading m \<le>s v)"
| "growth_only m (SetAscender v) = (ascender m \<le>s v)"
| "growth_only m (SetDescender v) = (v \<le>s descender m)"
| "growth_only m (SetExternalLeading v) = (v \<le>s external_leading m)"

fun growth_only_seq :: "FontMetrics \<Rightarrow> metric_update list \<Rightarrow> bool" where
  "growth_only_seq m [] = True"
| "growth_only_seq m (u # us) =
     (growth_only m u \<and>
      (case apply_update m u of Inl e \<Rightarrow> True | Inr m' \<Rightarrow> growth_only_seq m' us))"

definition total_int :: "FontMetrics \<Rightarrow> int" where
  "total_int m =
     sint (internal_leading m) + sint (ascender m) - sint (descender m)
       - sint (external_leading m)"

section \<open>\<^verbatim>\<open>std::vector\<close> and \<^verbatim>\<open>FontBuffer\<close>\<close>

text \<open>
  A \<^verbatim>\<open>std::vector\<close> is its elements and its capacity. Raising the capacity asks the
  allocator for a block of capacity times element size bytes. An allocator is the
  predicate that says which block sizes it grants; a refused request is
  \<^verbatim>\<open>std::bad_alloc\<close>, which ends the operation with \<open>Inl BadAlloc\<close>. With a
  \<^verbatim>\<open>size_t\<close> of 64 bits no request below exceeds \<^verbatim>\<open>max_size()\<close>, so
  \<^verbatim>\<open>std::length_error\<close> does not arise. \<^verbatim>\<open>reserve\<close> raises the capacity to the
  request when it is below it; \<^verbatim>\<open>push_back\<close> appends and, when the vector is full,
  first grows the capacity (here to twice the size, at least to 1; the factor is the
  library's, and nothing below depends on it).
\<close>

type_synonym allocator = "nat \<Rightarrow> bool"

record 'a std_vector =
  elems :: "'a list"
  capacity :: nat

definition vector_empty :: "'a std_vector" where
  "vector_empty = \<lparr>elems = [], capacity = 0\<rparr>"

definition vector_size :: "'a std_vector \<Rightarrow> nat" where
  "vector_size v = length (elems v)"

definition reserve :: "allocator \<Rightarrow> nat \<Rightarrow> nat \<Rightarrow> 'a std_vector \<Rightarrow> error + 'a std_vector" where
  "reserve grants elem_size n v =
     (if n \<le> capacity v then Inr v
      else if grants (n * elem_size) then Inr (v\<lparr>capacity := n\<rparr>)
      else Inl BadAlloc)"

definition push_back :: "allocator \<Rightarrow> nat \<Rightarrow> 'a \<Rightarrow> 'a std_vector \<Rightarrow> error + 'a std_vector" where
  "push_back grants elem_size x v =
     (if length (elems v) < capacity v then Inr (v\<lparr>elems := elems v @ [x]\<rparr>)
      else if grants ((length (elems v) + max (length (elems v)) 1) * elem_size)
      then Inr \<lparr>elems = elems v @ [x],
                capacity = length (elems v) + max (length (elems v)) 1\<rparr>
      else Inl BadAlloc)"

text \<open>An operation that failed ends the sequence of operations it is part of.\<close>

definition and_then :: "error + 'a \<Rightarrow> ('a \<Rightarrow> error + 'b) \<Rightarrow> error + 'b" where
  "and_then r f = (case r of Inl e \<Rightarrow> Inl e | Inr x \<Rightarrow> f x)"

text \<open>Several calls of \<^verbatim>\<open>push_back\<close> in a row, which end with the first that throws.\<close>

fun push_back_all ::
  "allocator \<Rightarrow> nat \<Rightarrow> 'a list \<Rightarrow> 'a std_vector \<Rightarrow> error + 'a std_vector" where
  "push_back_all grants elem_size [] v = Inr v"
| "push_back_all grants elem_size (x # xs) v =
     and_then (push_back grants elem_size x v) (push_back_all grants elem_size xs)"

text \<open>
  The sizes in bytes of the element types: \<^verbatim>\<open>uint16_t\<close>, \<^verbatim>\<open>uint32_t\<close>,
  \<^verbatim>\<open>FontVertex\<close> (five packed \<^verbatim>\<open>float\<close> members, lines 790 and 791) and
  \<^verbatim>\<open>mathfu::vec2i\<close> (two \<^verbatim>\<open>int32_t\<close>).
\<close>

definition sizeof_uint16_t :: nat where
  "sizeof_uint16_t = 2"

definition sizeof_uint32_t :: nat where
  "sizeof_uint32_t = 4"

definition sizeof_FontVertex :: nat where
  "sizeof_FontVertex = 20"

definition sizeof_vec2i :: nat where
  "sizeof_vec2i = 8"

text \<open>An allocator for examples: it grants every block up to a limit.\<close>

definition grants_up_to :: "nat \<Rightarrow> allocator" where
  "grants_up_to limit n = (n \<le> limit)"

text \<open>Lines 773 to 793.\<close>

record FontVertex =
  position :: "float32 \<times> float32 \<times> float32"
  uv :: "float32 \<times> float32"

definition FontVertex_init ::
  "float32 \<Rightarrow> float32 \<Rightarrow> float32 \<Rightarrow> float32 \<Rightarrow> float32 \<Rightarrow> FontVertex" where
  "FontVertex_init x y z u v = \<lparr>position = (x, y, z), uv = (u, v)\<rparr>"

text \<open>Lines 803 and 808.\<close>

definition kIndiciesPerCodePoint :: int32_t where
  "kIndiciesPerCodePoint = 6"

definition kVerticesPerCodePoint :: int32_t where
  "kVerticesPerCodePoint = 4"

text \<open>
  Lines 991 to 1033, the members. \<^verbatim>\<open>size_\<close> and \<^verbatim>\<open>pass_\<close> are left out: no
  constructor initialises them and no operation below reads them.
\<close>

record FontBuffer =
  metrics :: FontMetrics
  indices :: "uint16_t std_vector"
  vertices :: "FontVertex std_vector"
  code_points :: "uint32_t std_vector"
  caret_positions :: "vec2i std_vector"
  word_boundary :: "uint32_t std_vector"
  word_boundary_caret :: "uint32_t std_vector"
  revision :: uint32_t
  line_start_index :: uint32_t
  line_start_caret_index :: uint32_t

text \<open>Lines 811 and 812, the default constructor.\<close>

definition FontBuffer_default :: FontBuffer where
  "FontBuffer_default =
     \<lparr>metrics = FontMetrics_default, indices = vector_empty, vertices = vector_empty,
      code_points = vector_empty, caret_positions = vector_empty,
      word_boundary = vector_empty, word_boundary_caret = vector_empty,
      revision = 0, line_start_index = 0, line_start_caret_index = 0\<rparr>"

text \<open>
  Lines 826 to 834. The argument \<^verbatim>\<open>size\<close> is a \<^verbatim>\<open>uint32_t\<close>, and the three
  requests \<^verbatim>\<open>size * kIndiciesPerCodePoint\<close>, \<^verbatim>\<open>size * kVerticesPerCodePoint\<close> and
  \<^verbatim>\<open>size + 1\<close> are computed in 32 bits before they become a \<^verbatim>\<open>size_t\<close>. The
  four calls of \<^verbatim>\<open>reserve\<close> run in the order of the source, and the first that throws
  ends the constructor: no \<^verbatim>\<open>FontBuffer\<close> is constructed then.
\<close>

definition FontBuffer_init :: "allocator \<Rightarrow> uint32_t \<Rightarrow> bool \<Rightarrow> error + FontBuffer" where
  "FontBuffer_init grants sz caret_info =
     and_then (reserve grants sizeof_uint16_t (unat (sz * kIndiciesPerCodePoint)) vector_empty)
       (\<lambda>i. and_then
         (reserve grants sizeof_FontVertex (unat (sz * kVerticesPerCodePoint)) vector_empty)
         (\<lambda>v. and_then (reserve grants sizeof_uint32_t (unat sz) vector_empty)
           (\<lambda>c. and_then
             (if caret_info then reserve grants sizeof_vec2i (unat (sz + 1)) vector_empty
              else Inr vector_empty)
             (\<lambda>p. Inr (FontBuffer_default
                 \<lparr>indices := i, vertices := v, code_points := c, caret_positions := p\<rparr>)))))"

text \<open>Line 907.\<close>

definition AddCodepoint :: "allocator \<Rightarrow> uint32_t \<Rightarrow> FontBuffer \<Rightarrow> error + FontBuffer" where
  "AddCodepoint grants codepoint b =
     and_then (push_back grants sizeof_uint32_t codepoint (code_points b))
       (\<lambda>c. Inr (b\<lparr>code_points := c\<rparr>))"

text \<open>
  Lines 963 to 967. The products are \<^verbatim>\<open>size_t\<close> products of a vector's size, which
  is far below \<open>2^64 / 6\<close>, so they are products of natural numbers. \<^verbatim>\<open>Verify\<close>
  assigns to no member: its result is all it does.
\<close>

definition Verify :: "FontBuffer \<Rightarrow> error + bool" where
  "Verify b =
     (if vector_size (vertices b) \<noteq> vector_size (code_points b) * unat kVerticesPerCodePoint
      then Inl AssertionFailed
      else if vector_size (indices b) \<noteq> vector_size (code_points b) * unat kIndiciesPerCodePoint
      then Inl AssertionFailed
      else Inr True)"

text \<open>
  Lines 976 to 980. The guard is \<^verbatim>\<open>index > caret_positions_.size()\<close>; what passes it
  is read with \<^verbatim>\<open>operator[]\<close>.
\<close>

definition GetCaretPosition :: "FontBuffer \<Rightarrow> nat \<Rightarrow> error + vec2i" where
  "GetCaretPosition b index =
     (if capacity (caret_positions b) = 0 \<or> vector_size (caret_positions b) < index
      then Inr kCaretPositionInvalid
      else if index < vector_size (caret_positions b)
      then Inr (elems (caret_positions b) ! index)
      else Inl OutOfBoundsRead)"


subsection \<open>Appending a glyph\<close>

text \<open>
  Modelled from the spec: \<^verbatim>\<open>AddVertices\<close> is declared at line 919 and defined in
  \<^verbatim>\<open>font_manager.cpp\<close>, which is not among the sources. By its comment it "adds 4
  vertices to be used for a glyph rendering to the vertex array", and by section 3 of the
  specification there are four vertices for each glyph. The four vertices it computes
  from its arguments are the argument here.
\<close>

definition AddVertices ::
  "allocator \<Rightarrow> FontVertex \<times> FontVertex \<times> FontVertex \<times> FontVertex \<Rightarrow> FontBuffer
   \<Rightarrow> error + FontBuffer" where
  "AddVertices grants quad b =
     (case quad of (v0, v1, v2, v3) \<Rightarrow>
        and_then (push_back_all grants sizeof_FontVertex [v0, v1, v2, v3] (vertices b))
          (\<lambda>v. Inr (b\<lparr>vertices := v\<rparr>)))"

text \<open>
  Modelled from the spec: the six indices of a glyph, "indices (6 per glyph, two
  triangles)" (section 3). They are pushed through the vector that \<^verbatim>\<open>get_indices()\<close>
  (line 850) returns, in \<^verbatim>\<open>font_manager.cpp\<close>. Which vertices the two triangles name
  is not given by the specification: the triangles are an argument.
\<close>

type_synonym triangle = "uint16_t \<times> uint16_t \<times> uint16_t"

definition triangle_indices :: "triangle \<times> triangle \<Rightarrow> uint16_t list" where
  "triangle_indices triangles =
     (case triangles of ((i0, i1, i2), (i3, i4, i5)) \<Rightarrow> [i0, i1, i2, i3, i4, i5])"

text \<open>
  Modelled from the spec: the mutation that appends one glyph, of section 3 and of the
  data flow of section 2 ("vertex/index data ... is emitted into a new Font Buffer"). It
  is part of \<^verbatim>\<open>CreateBuffer\<close> in \<^verbatim>\<open>font_manager.cpp\<close>. The code point is added with
  \<^verbatim>\<open>AddCodepoint\<close>, the four vertices with \<^verbatim>\<open>AddVertices\<close>, then the six indices. A
  string is appended glyph by glyph.
\<close>

definition append_glyph ::
  "allocator \<Rightarrow> uint32_t \<Rightarrow> FontVertex \<times> FontVertex \<times> FontVertex \<times> FontVertex
   \<Rightarrow> triangle \<times> triangle \<Rightarrow> FontBuffer \<Rightarrow> error + FontBuffer" where
  "append_glyph grants codepoint quad triangles b =
     and_then (AddCodepoint grants codepoint b)
       (\<lambda>b1. and_then (AddVertices grants quad b1)
         (\<lambda>b2. and_then
           (push_back_all grants sizeof_uint16_t (triangle_indices triangles) (indices b2))
           (\<lambda>i. Inr (b2\<lparr>indices := i\<rparr>))))"

fun append_glyphs ::
  "allocator
   \<Rightarrow> (uint32_t \<times> (FontVertex \<times> FontVertex \<times> FontVertex \<times> FontVertex)
        \<times> triangle \<times> triangle) list
   \<Rightarrow> FontBuffer \<Rightarrow> error + FontBuffer" where
  "append_glyphs grants [] b = Inr b"
| "append_glyphs grants ((codepoint, quad, triangles) # gs) b =
     and_then (append_glyph grants codepoint quad triangles b) (append_glyphs grants gs)"

section \<open>\<^verbatim>\<open>FontManager::GetBuffer\<close>\<close>

text \<open>
  Modelled from the spec: \<^verbatim>\<open>FontManager::GetBuffer\<close>, \<^verbatim>\<open>CreateBuffer\<close> and
  \<^verbatim>\<open>GetCachedEntry\<close> are declared in the header (lines 371, 544 and 518) and defined in
  \<^verbatim>\<open>font_manager.cpp\<close>, and the glyph cache is \<^verbatim>\<open>glyph_cache.h\<close>; neither file is
  among the sources. The specification's glyph cache answers \<open>lookup_or_create\<close> with
  an entry or a miss, and its error taxonomy separates a glyph that no font has (skipped
  in layout) from cache exhaustion (the glyph does not fit even after eviction): these
  are the three results of a lookup. The cache and its lookup are parameters; a lookup
  returns the cache as it leaves it.
\<close>

datatype 'e glyph_lookup = Entry 'e | GlyphNotFound | CacheFull

text \<open>
  Modelled from the spec: building the buffer of a string (section 4.4 and the data
  flow of section 2). Each glyph is looked up in turn; a placed glyph is appended with
  its entry, a glyph without a font is skipped, and cache exhaustion ends the call with
  a miss (\<open>None\<close>, the \<^verbatim>\<open>nullptr\<close> of line 368). The text is its code points.
\<close>

fun CreateBuffer ::
  "('c \<Rightarrow> uint32_t \<Rightarrow> 'e glyph_lookup \<times> 'c) \<Rightarrow> 'c \<Rightarrow> uint32_t list \<Rightarrow> (uint32_t \<times> 'e) list
   \<Rightarrow> (uint32_t \<times> 'e) list option \<times> 'c" where
  "CreateBuffer lookup_or_create cache [] glyphs = (Some glyphs, cache)"
| "CreateBuffer lookup_or_create cache (g # gs) glyphs =
     (case lookup_or_create cache g of
        (Entry e, cache') \<Rightarrow> CreateBuffer lookup_or_create cache' gs (glyphs @ [(g, e)])
      | (GlyphNotFound, cache') \<Rightarrow> CreateBuffer lookup_or_create cache' gs glyphs
      | (CacheFull, cache') \<Rightarrow> (None, cache'))"

text \<open>
  Modelled from the spec: \<^verbatim>\<open>GetBuffer\<close> for a string that has no valid cached
  buffer.
\<close>

definition GetBuffer ::
  "('c \<Rightarrow> uint32_t \<Rightarrow> 'e glyph_lookup \<times> 'c) \<Rightarrow> 'c \<Rightarrow> uint32_t list
   \<Rightarrow> (uint32_t \<times> 'e) list option \<times> 'c" where
  "GetBuffer lookup_or_create cache text = CreateBuffer lookup_or_create cache text []"

text \<open>
  Modelled from the spec: \<^verbatim>\<open>FlushAndUpdate\<close> (line 403) calls \<^verbatim>\<open>UpdatePass(true)\<close>,
  which is defined in \<^verbatim>\<open>font_manager.cpp\<close>; by section 4.5 it "clears the Glyph
  Cache". The cleared cache is a parameter. The caller's recovery of sections 4.4 and 7
  is: on a miss, flush the whole glyph cache and call \<^verbatim>\<open>GetBuffer\<close> again for the
  whole string.
\<close>

definition FlushAndUpdate :: "'c \<Rightarrow> 'c \<Rightarrow> 'c" where
  "FlushAndUpdate cleared cache = cleared"

definition flush_and_retry ::
  "('c \<Rightarrow> uint32_t \<Rightarrow> 'e glyph_lookup \<times> 'c) \<Rightarrow> 'c \<Rightarrow> 'c \<Rightarrow> uint32_t list
   \<Rightarrow> (uint32_t \<times> 'e) list option \<times> 'c" where
  "flush_and_retry lookup_or_create cleared cache text =
     (case GetBuffer lookup_or_create cache text of
        (None, cache') \<Rightarrow> GetBuffer lookup_or_create (FlushAndUpdate cleared cache') text
      | (Some b, cache') \<Rightarrow> (Some b, cache'))"

text \<open>
  Modelled from the spec: what the glyph cache answers for the glyphs of a whole string,
  each asked in the cache the previous lookup left; the glyphs among them that were
  placed; and whether one of them met an exhausted cache ("glyph placement for any glyph
  in the string fails even after the Glyph Cache's internal eviction attempt").
\<close>

fun lookups ::
  "('c \<Rightarrow> uint32_t \<Rightarrow> 'e glyph_lookup \<times> 'c) \<Rightarrow> 'c \<Rightarrow> uint32_t list
   \<Rightarrow> (uint32_t \<times> 'e glyph_lookup) list" where
  "lookups lookup_or_create cache [] = []"
| "lookups lookup_or_create cache (g # gs) =
     (g, fst (lookup_or_create cache g))
       # lookups lookup_or_create (snd (lookup_or_create cache g)) gs"

fun placed :: "(uint32_t \<times> 'e glyph_lookup) list \<Rightarrow> (uint32_t \<times> 'e) list" where
  "placed [] = []"
| "placed ((g, Entry e) # rs) = (g, e) # placed rs"
| "placed ((g, GlyphNotFound) # rs) = placed rs"
| "placed ((g, CacheFull) # rs) = placed rs"

definition exhausted :: "(uint32_t \<times> 'e glyph_lookup) list \<Rightarrow> bool" where
  "exhausted rs = (CacheFull \<in> snd ` set rs)"

text \<open>
  Modelled from the spec: a glyph cache for examples, a number of free slots, one taken
  by each placed glyph; code point 0 is in no font.
\<close>

definition slot_cache :: "nat \<Rightarrow> uint32_t \<Rightarrow> nat glyph_lookup \<times> nat" where
  "slot_cache free g =
     (if g = 0 then (GlyphNotFound, free)
      else if free = 0 then (CacheFull, free)
      else (Entry free, free - 1))"

section \<open>Properties of \<^verbatim>\<open>FontBufferParameters\<close>\<close>

subsection \<open>Auxiliary facts on words\<close>

lemma unat_eqD: "unat (a :: 'a::len word) = k \<Longrightarrow> a = of_nat k"
  by auto

lemma word3_cases:
  fixes a :: "3 word"
  shows "a = 0 \<or> a = 1 \<or> a = 2 \<or> a = 3 \<or> a = 4 \<or> a = 5 \<or> a = 6 \<or> a = 7"
proof -
  have "unat a < 8"
    using unsigned_less [of a, where ?'a = nat] by simp
  then have "unat a = 0 \<or> unat a = 1 \<or> unat a = 2 \<or> unat a = 3 \<or> unat a = 4
      \<or> unat a = 5 \<or> unat a = 6 \<or> unat a = 7"
    by arith
  then show ?thesis
    by (elim disjE) (drule unat_eqD, simp)+
qed

lemma alignment_mask:
  fixes a :: TextAlignment
  shows "(a AND (kTextAlignmentRight OR kTextAlignmentJustify) = 0) =
    (a = kTextAlignmentLeft \<or> a = kTextAlignmentCenter)"
  using word3_cases [of a]
  by (auto simp: kTextAlignmentLeft_def kTextAlignmentCenter_def kTextAlignmentRight_def
      kTextAlignmentJustify_def)

lemma xor_cancel_right: "(a XOR c = b XOR c) = (a = b)" for a b c :: "'a::len word"
  by (metis bit.xor_self xor.assoc xor.right_neutral)

lemma xor_eq_self: "(a = a XOR c) = (c = 0)" for a c :: "'a::len word"
  by (metis bit.xor_self xor.assoc xor.right_neutral xor.left_neutral)

lemma sint_times_64:
  fixes x :: int32_t
  assumes "- (2 ^ 25) \<le> sint x" and "sint x < 2 ^ 25"
  shows "sint (x * 64) = sint x * 64"
proof -
  have "sint (x * 64) = signed_take_bit 31 (sint x * sint (64 :: int32_t))"
    by (simp add: sint_word_ariths)
  also have "sint (64 :: int32_t) = 64"
    by simp
  also have "signed_take_bit 31 (sint x * 64) = sint x * 64"
    using assms by (intro signed_take_bit_int_eq_self) auto
  finally show ?thesis .
qed

subsection \<open>The derived line length\<close>

text \<open>
  Claim C5. \<^verbatim>\<open>get_line_length()\<close> is 0 unless the alignment is a right or justify
  variant, and then it is the requested width times \<^verbatim>\<open>kFreeTypeUnit\<close> (64). The
  enumerators are bit flags, so "a right or justify variant" is: the right bit or the
  justify bit is set. The first conjunct covers every value of the bit-field; the second
  and third name the enumerators: 0 for left and center, the product for right, justify
  and the three justify variants. The product is the \<^verbatim>\<open>int32_t\<close> product; the last
  conjunct reads it as an integer where it does not overflow.
\<close>

theorem get_line_length_spec:
  "get_line_length p =
     (if get_text_alignment p AND (kTextAlignmentRight OR kTextAlignmentJustify) = 0 then 0
      else vec_x (get_size p) * kFreeTypeUnit)
   \<and> (get_text_alignment p = kTextAlignmentLeft \<or> get_text_alignment p = kTextAlignmentCenter
        \<longrightarrow> get_line_length p = 0)
   \<and> (get_text_alignment p = kTextAlignmentRight \<or> get_text_alignment p = kTextAlignmentJustify
        \<or> get_text_alignment p = kTextAlignmentLeftJustify
        \<or> get_text_alignment p = kTextAlignmentRightJustify
        \<or> get_text_alignment p = kTextAlignmentCenterJustify
        \<longrightarrow> get_line_length p = vec_x (get_size p) * kFreeTypeUnit)
   \<and> (get_text_alignment p \<noteq> kTextAlignmentLeft \<and> get_text_alignment p \<noteq> kTextAlignmentCenter
        \<and> - (2 ^ 25) \<le> sint (vec_x (get_size p)) \<and> sint (vec_x (get_size p)) < 2 ^ 25
        \<longrightarrow> sint (get_line_length p) = sint (vec_x (get_size p)) * 64)"
proof (intro conjI impI)
  show "get_line_length p =
     (if get_text_alignment p AND (kTextAlignmentRight OR kTextAlignmentJustify) = 0 then 0
      else vec_x (get_size p) * kFreeTypeUnit)"
    by (simp add: get_line_length_def Let_def get_size_def alignment_mask)
next
  assume "get_text_alignment p = kTextAlignmentLeft \<or> get_text_alignment p = kTextAlignmentCenter"
  then show "get_line_length p = 0"
    by (auto simp: get_line_length_def Let_def)
next
  assume "get_text_alignment p = kTextAlignmentRight \<or> get_text_alignment p = kTextAlignmentJustify
        \<or> get_text_alignment p = kTextAlignmentLeftJustify
        \<or> get_text_alignment p = kTextAlignmentRightJustify
        \<or> get_text_alignment p = kTextAlignmentCenterJustify"
  then show "get_line_length p = vec_x (get_size p) * kFreeTypeUnit"
    by (auto simp: get_line_length_def Let_def get_size_def kTextAlignmentLeft_def
        kTextAlignmentCenter_def kTextAlignmentRight_def kTextAlignmentJustify_def
        kTextAlignmentLeftJustify_def kTextAlignmentRightJustify_def
        kTextAlignmentCenterJustify_def)
next
  assume "get_text_alignment p \<noteq> kTextAlignmentLeft \<and> get_text_alignment p \<noteq> kTextAlignmentCenter
        \<and> - (2 ^ 25) \<le> sint (vec_x (get_size p)) \<and> sint (vec_x (get_size p)) < 2 ^ 25"
  then show "sint (get_line_length p) = sint (vec_x (get_size p)) * 64"
    by (simp add: get_line_length_def Let_def get_size_def kFreeTypeUnit_def sint_times_64)
qed

text \<open>
  A request 100 pixels wide, right aligned: the line length is 6400. The same request
  left aligned or centered has line length 0.
\<close>

theorem get_line_length_spec_witness:
  "get_text_alignment
     (FontBufferParameters_init 0 (1 :: nat) 2 0 (100, 0) kTextAlignmentRight 0 False)
     = kTextAlignmentRight
   \<and> get_line_length
     (FontBufferParameters_init 0 (1 :: nat) 2 0 (100, 0) kTextAlignmentRight 0 False) = 6400
   \<and> sint (get_line_length
     (FontBufferParameters_init 0 (1 :: nat) 2 0 (100, 0) kTextAlignmentRight 0 False)) = 6400
   \<and> get_line_length
     (FontBufferParameters_init 0 (1 :: nat) 2 0 (100, 0) kTextAlignmentLeft 0 False) = 0
   \<and> get_line_length
     (FontBufferParameters_init 0 (1 :: nat) 2 0 (100, 0) kTextAlignmentCenter 0 False) = 0"
  using
    get_line_length_spec
      [of "FontBufferParameters_init 0 (1 :: nat) 2 0 (100, 0) kTextAlignmentRight 0 False"]
    get_line_length_spec
      [of "FontBufferParameters_init 0 (1 :: nat) 2 0 (100, 0) kTextAlignmentLeft 0 False"]
    get_line_length_spec
      [of "FontBufferParameters_init 0 (1 :: nat) 2 0 (100, 0) kTextAlignmentCenter 0 False"]
  by (simp add: get_text_alignment_def get_size_def FontBufferParameters_init_def
      flags_text_alignement_def set_flags_text_alignement_def set_flags_glyph_flags_def
      set_flags_caret_info_def kTextAlignmentRight_def kTextAlignmentLeft_def
      kTextAlignmentCenter_def kTextAlignmentJustify_def vec_x_def kFreeTypeUnit_def)

subsection \<open>Facts on the \<^verbatim>\<open>float\<close> model\<close>

text \<open>A bit pattern is its sign, exponent and fraction.\<close>

lemma float_fields:
  "unat w = (if float_sign w then 2 ^ 31 else 0) + float_exponent w * 2 ^ 23 + float_fraction w"
proof -
  define n where "n = unat w"
  define q where "q = n div 2 ^ 23"
  have n: "n < 2 ^ 32"
    unfolding n_def using unsigned_less [of w, where ?'a = nat] by simp
  have split_n: "n = q * 2 ^ 23 + n mod 2 ^ 23"
    unfolding q_def by simp
  have split_q: "q = (q div 256) * 256 + q mod 256"
    by simp
  have "q div 256 = n div (2 ^ 23 * 256)"
    unfolding q_def by (simp only: div_mult2_eq)
  then have top: "q div 256 = n div 2 ^ 31"
    by simp
  have "n div 2 ^ 31 < 2"
    using n by (simp add: less_mult_imp_div_less)
  moreover have "(0 < n div 2 ^ 31) = (2 ^ 31 \<le> n)"
    by (simp add: div_greater_zero_iff)
  ultimately have "n div 2 ^ 31 = (if 2 ^ 31 \<le> n then 1 else 0)"
    by (simp split: if_splits) linarith
  with top split_q have "q = (if 2 ^ 31 \<le> n then 256 else 0) + q mod 256"
    by (simp split: if_splits)
  then have "q * 2 ^ 23 = (if 2 ^ 31 \<le> n then 2 ^ 31 else 0) + (q mod 256) * 2 ^ 23"
    by (simp split: if_splits add: ring_distribs)
  with split_n have "n = (if 2 ^ 31 \<le> n then 2 ^ 31 else 0) + (q mod 256) * 2 ^ 23 + n mod 2 ^ 23"
    by simp
  then show ?thesis
    unfolding float_sign_def float_exponent_def float_fraction_def q_def n_def .
qed

lemma float_fraction_bound: "float_fraction w < 2 ^ 23"
  by (simp add: float_fraction_def)

lemma float_fields_inj:
  assumes "float_sign a = float_sign b" and "float_exponent a = float_exponent b"
    and "float_fraction a = float_fraction b"
  shows "a = b"
proof -
  have "unat a = unat b"
    using assms by (simp add: float_fields [of a] float_fields [of b])
  then show ?thesis
    by (simp only: word_unat_eq_iff)
qed

text \<open>
  The magnitudes of exponent \<open>e > 0\<close> fill the interval from \<open>2^(22 + e)\<close> up to
  \<open>2^(23 + e)\<close>, those of exponent 0 lie below \<open>2^23\<close>: distinct fields give distinct
  magnitudes.
\<close>

lemma magnitude_lower:
  assumes "0 < e"
  shows "2 ^ (22 + e) \<le> float_magnitude e m"
proof -
  from assms obtain k where e: "e = Suc k"
    by (cases e) auto
  have "(2::nat) ^ 23 * 2 ^ k \<le> (2 ^ 23 + m) * 2 ^ k"
    by (rule mult_le_mono1) simp
  then show ?thesis
    using e by (simp add: float_magnitude_def power_add)
qed

lemma magnitude_upper:
  assumes "m < 2 ^ 23"
  shows "float_magnitude e m < 2 ^ (23 + e)"
proof (cases e)
  case 0
  with assms show ?thesis
    by (simp add: float_magnitude_def)
next
  case (Suc k)
  from assms have "(2 ^ 23 + m) * 2 ^ k < (2 ^ 24) * (2::nat) ^ k"
    by (intro mult_strict_right_mono) simp_all
  then show ?thesis
    using Suc by (simp add: float_magnitude_def power_add)
qed

lemma magnitude_lt:
  assumes "e < e'" and "m < 2 ^ 23"
  shows "float_magnitude e m < float_magnitude e' m'"
proof -
  have "float_magnitude e m < 2 ^ (23 + e)"
    using assms(2) by (rule magnitude_upper)
  also have "(2::nat) ^ (23 + e) \<le> 2 ^ (22 + e')"
    using assms(1) by (intro power_increasing) simp_all
  also have "\<dots> \<le> float_magnitude e' m'"
    using assms(1) by (intro magnitude_lower) simp
  finally show ?thesis .
qed

lemma magnitude_inj:
  assumes "float_magnitude e m = float_magnitude e' m'" and "m < 2 ^ 23" and "m' < 2 ^ 23"
  shows "e = e' \<and> m = m'"
proof -
  have e: "e = e'"
    using magnitude_lt [of e e' m m'] magnitude_lt [of e' e m' m] assms
    by (cases e e' rule: linorder_cases) auto
  with assms(1) have "m = m'"
    by (cases e') (auto simp: float_magnitude_def)
  with e show ?thesis
    by simp
qed

lemma float_magnitude_inj:
  assumes "float_magnitude (float_exponent a) (float_fraction a) =
    float_magnitude (float_exponent b) (float_fraction b)"
  shows "float_exponent a = float_exponent b \<and> float_fraction a = float_fraction b"
  using assms float_fraction_bound [of a] float_fraction_bound [of b]
  by (intro magnitude_inj)

lemma float_magnitude_zero:
  assumes "float_magnitude (float_exponent a) (float_fraction a) = 0"
  shows "float_is_zero a"
proof -
  have "float_magnitude (float_exponent a) (float_fraction a) = float_magnitude 0 0"
    using assms by (simp add: float_magnitude_def)
  then have "float_exponent a = 0 \<and> float_fraction a = 0"
    using float_fraction_bound [of a] by (intro magnitude_inj) simp_all
  then have "unat a = (if float_sign a then 2 ^ 31 else 0)"
    by (simp add: float_fields [of a])
  then have "unat a = 0 \<or> unat a = 2 ^ 31"
    by (simp split: if_splits)
  then show ?thesis
    unfolding float_is_zero_def
    by (elim disjE) (drule unat_eqD, simp)+
qed

lemma float_is_zero_val: "float_is_zero a \<Longrightarrow> float_val a = FFinite 0"
  by (auto simp: float_is_zero_def float_val_def float_exponent_def float_fraction_def
      float_sign_def float_magnitude_def)

lemma float_is_nan_val: "float_is_nan a = (float_val a = FNaN)"
  by (simp add: float_is_nan_def float_val_def)

text \<open>
  IEEE equality on bit patterns: neither side is a NaN, and the patterns are the same or
  both are zeros.
\<close>

lemma float_eq_iff:
  "float_eq a b =
     (\<not> float_is_nan a \<and> \<not> float_is_nan b \<and> (a = b \<or> (float_is_zero a \<and> float_is_zero b)))"
proof
  assume eq: "float_eq a b"
  then have nan: "\<not> float_is_nan a" "\<not> float_is_nan b"
    by (auto simp: float_eq_def float_is_nan_val)
  have "a = b \<or> (float_is_zero a \<and> float_is_zero b)"
  proof (cases "float_exponent a = 255 \<or> float_exponent b = 255")
    case True
    with eq nan have "float_sign a = float_sign b \<and> float_exponent a = float_exponent b
        \<and> float_fraction a = float_fraction b"
      by (auto simp: float_eq_def float_val_def float_is_nan_def split: if_splits)
    then show ?thesis
      by (simp add: float_fields_inj)
  next
    case False
    let ?ma = "float_magnitude (float_exponent a) (float_fraction a)"
    let ?mb = "float_magnitude (float_exponent b) (float_fraction b)"
    from False eq have vals:
      "(if float_sign a then - int ?ma else int ?ma) = (if float_sign b then - int ?mb else int ?mb)"
      by (simp add: float_eq_def float_val_def)
    show ?thesis
    proof (cases "float_sign a = float_sign b")
      case True
      with vals have "?ma = ?mb"
        by (simp split: if_splits)
      then have "float_exponent a = float_exponent b \<and> float_fraction a = float_fraction b"
        by (rule float_magnitude_inj)
      with True show ?thesis
        by (simp add: float_fields_inj)
    next
      case False
      with vals have "?ma = 0 \<and> ?mb = 0"
        by (auto split: if_splits)
      then show ?thesis
        by (simp add: float_magnitude_zero)
    qed
  qed
  with nan show "\<not> float_is_nan a \<and> \<not> float_is_nan b
      \<and> (a = b \<or> (float_is_zero a \<and> float_is_zero b))"
    by simp
next
  assume "\<not> float_is_nan a \<and> \<not> float_is_nan b \<and> (a = b \<or> (float_is_zero a \<and> float_is_zero b))"
  then consider "a = b" "\<not> float_is_nan a" | "float_is_zero a" "float_is_zero b"
    by auto
  then show "float_eq a b"
  proof cases
    case 1
    then show ?thesis
      by (cases "float_val a") (auto simp: float_eq_def float_is_nan_val)
  next
    case 2
    then show ?thesis
      by (simp add: float_eq_def float_is_zero_val)
  qed
qed

text \<open>An integer of magnitude up to \<open>2^24\<close> is converted exactly.\<close>

lemma round_to_float_small:
  assumes "n \<le> 2 ^ 24"
  shows "round_to_float n = n"
proof (cases "n < 2 ^ 24")
  case True
  then have "sig_shift n = 0"
    by (simp add: sig_shift.simps)
  then show ?thesis
    by (simp add: round_to_float_def)
next
  case False
  with assms have n: "n = 2 ^ 24"
    by simp
  have "sig_shift (2 ^ 24) = Suc (sig_shift (2 ^ 23))"
    by (subst sig_shift.simps) simp
  also have "sig_shift (2 ^ 23) = 0"
    by (subst sig_shift.simps) simp
  finally have "sig_shift n = 1"
    using n by simp
  then show ?thesis
    using n by (simp add: round_to_float_def)
qed

lemma int32_to_float_exact:
  assumes "- (2 ^ 24) \<le> sint i" and "sint i \<le> 2 ^ 24"
  shows "int32_to_float i = FFinite (sint i * 2 ^ 149)"
proof (cases "sint i < 0")
  case True
  then have "nat (- sint i) \<le> 2 ^ 24"
    using assms by simp
  then have "round_to_float (nat (- sint i)) = nat (- sint i)"
    by (rule round_to_float_small)
  with True show ?thesis
    by (simp add: int32_to_float_def)
next
  case False
  then have "nat (sint i) \<le> 2 ^ 24"
    using assms by simp
  then have "round_to_float (nat (sint i)) = nat (sint i)"
    by (rule round_to_float_small)
  with False show ?thesis
    by (simp add: int32_to_float_def)
qed

text \<open>The font size 12.0 is the pattern \<open>0x41400000\<close>.\<close>

lemma float_val_12: "float_val 0x41400000 = FFinite (12 * 2 ^ 149)"
  by (simp add: float_val_def float_exponent_def float_fraction_def float_sign_def
      float_magnitude_def)

text \<open>
  Rounding to a \<^verbatim>\<open>float\<close> gives the nearest representable number, ties to even:
  \<open>round_to_float n\<close> is the only \<open>r\<close> with \<open>nearest_even k n r\<close>, where \<open>k\<close>
  is the number of bits of \<open>n\<close> beyond 24.
\<close>

lemma sig_shift_eq:
  assumes "k = 0 \<or> 2 ^ (23 + k) \<le> n" and "n < 2 ^ (24 + k)"
  shows "sig_shift n = k"
  using assms
proof (induction k arbitrary: n)
  case 0
  then show ?case
    by (simp add: sig_shift.simps)
next
  case (Suc k)
  then have lo: "2 ^ (24 + k) \<le> n" and hi: "n < 2 ^ (25 + k)"
    by simp_all
  have "(2::nat) ^ 24 \<le> 2 ^ (24 + k)"
    by (intro power_increasing) simp_all
  with lo have big: "\<not> n < 2 ^ 24"
    by simp
  have "2 ^ (23 + k) \<le> n div 2"
    using lo by (simp add: power_add)
  moreover have "n div 2 < 2 ^ (24 + k)"
    using hi by (simp add: power_add)
  ultimately have "sig_shift (n div 2) = k"
    by (intro Suc.IH) simp_all
  with big show ?case
    by (subst sig_shift.simps) simp
qed

lemma near_not_below:
  fixes A B K t :: int
  assumes "2 * \<bar>A - (B + t)\<bar> \<le> K" and "0 \<le> t" and "0 < K" and "A + K \<le> B"
  shows False
  using assms by (simp add: abs_le_iff)

lemma near_not_above:
  fixes A B K t :: int
  assumes "2 * \<bar>A - (B + t)\<bar> \<le> K" and "t < K" and "0 < K" and "B + 2 * K \<le> A"
  shows False
  using assms by (simp add: abs_le_iff)

lemma nearest_even_unique:
  assumes "nearest_even k n r"
  shows "r = (if 2 ^ k < 2 * (n mod 2 ^ k) \<or> (2 * (n mod 2 ^ k) = 2 ^ k \<and> odd (n div 2 ^ k))
              then (n div 2 ^ k + 1) * 2 ^ k else (n div 2 ^ k) * 2 ^ k)"
proof -
  define K :: int where "K = 2 ^ k"
  define q :: int where "q = int (n div 2 ^ k)"
  define t :: int where "t = int (n mod 2 ^ k)"
  from assms obtain m' where r: "r = 2 ^ k * m'"
    by (auto simp: nearest_even_def)
  define m :: int where "m = int m'"
  have K: "0 < K"
    by (simp add: K_def)
  have t: "0 \<le> t" "t < K"
    by (simp_all add: t_def K_def)
  have "int n = int (n div 2 ^ k * 2 ^ k + n mod 2 ^ k)"
    by (simp only: div_mult_mod_eq)
  also have "\<dots> = q * K + t"
    by (simp add: q_def K_def t_def)
  finally have n: "int n = q * K + t" .
  have rK: "int r = m * K"
    by (simp add: r m_def K_def)
  have "2 * \<bar>int r - int n\<bar> \<le> K"
    using assms by (simp add: nearest_even_def K_def)
  then have dist: "2 * \<bar>m * K - (q * K + t)\<bar> \<le> K"
    unfolding rK n .
  have m_lo: "q \<le> m"
  proof (rule ccontr)
    assume "\<not> q \<le> m"
    then have "m + 1 \<le> q"
      by simp
    then have "(m + 1) * K \<le> q * K"
      using K by (intro mult_right_mono) simp_all
    then have "m * K + K \<le> q * K"
      by (simp add: algebra_simps)
    with dist t K show False
      by (intro near_not_below [of "m * K" "q * K" t K])
  qed
  have m_hi: "m \<le> q + 1"
  proof (rule ccontr)
    assume "\<not> m \<le> q + 1"
    then have "q + 2 \<le> m"
      by simp
    then have "(q + 2) * K \<le> m * K"
      using K by (intro mult_right_mono) simp_all
    then have "q * K + 2 * K \<le> m * K"
      by (simp add: algebra_simps)
    with dist t K show False
      by (intro near_not_above [of "m * K" "q * K" t K])
  qed
  have rdiv: "r div 2 ^ k = m'"
    by (simp add: r)
  have "2 * \<bar>int r - int n\<bar> = K \<longrightarrow> even m"
    using assms by (simp add: nearest_even_def K_def rdiv m_def)
  then have tie: "2 * \<bar>m * K - (q * K + t)\<bar> = K \<longrightarrow> even m"
    unfolding rK n .
  from m_lo m_hi consider "m = q" | "m = q + 1"
    by linarith
  then have m_eq: "m = (if K < 2 * t \<or> (2 * t = K \<and> odd q) then q + 1 else q)"
  proof cases
    case 1
    with dist have le: "2 * t \<le> K"
      using t by simp
    show ?thesis
    proof (cases "2 * t = K")
      case True
      with 1 tie t have "even q"
        by simp
      with 1 True show ?thesis
        by simp
    next
      case False
      with le 1 show ?thesis
        by simp
    qed
  next
    case 2
    then have "m * K = q * K + K"
      by (simp add: algebra_simps)
    with dist t have ge: "K \<le> 2 * t"
      by simp
    show ?thesis
    proof (cases "2 * t = K")
      case True
      have "m * K - (q * K + t) = K - t"
        using \<open>m * K = q * K + K\<close> by simp
      with True tie t have "even m"
        by simp
      with 2 have "odd q"
        by simp
      with 2 True show ?thesis
        by simp
    next
      case False
      with ge 2 show ?thesis
        by simp
    qed
  qed
  have cond: "(K < 2 * t \<or> (2 * t = K \<and> odd q)) =
      (2 ^ k < 2 * (n mod 2 ^ k) \<or> (2 * (n mod 2 ^ k) = 2 ^ k \<and> odd (n div 2 ^ k)))"
  proof -
    have Knat: "K = int (2 ^ k)"
      by (simp add: K_def)
    have tnat: "2 * t = int (2 * (n mod 2 ^ k))"
      by (simp add: t_def)
    show ?thesis
      unfolding Knat tnat q_def by (simp only: of_nat_less_iff of_nat_eq_iff even_of_nat)
  qed
  have "int r = (if K < 2 * t \<or> (2 * t = K \<and> odd q) then (q + 1) * K else q * K)"
    using m_eq rK by simp
  then have "int r =
      int (if 2 ^ k < 2 * (n mod 2 ^ k) \<or> (2 * (n mod 2 ^ k) = 2 ^ k \<and> odd (n div 2 ^ k))
           then (n div 2 ^ k + 1) * 2 ^ k else (n div 2 ^ k) * 2 ^ k)"
    unfolding cond by (simp add: K_def q_def algebra_simps)
  then show ?thesis
    by (simp only: of_nat_eq_iff)
qed

lemma round_to_float_nearest:
  assumes "k = 0 \<or> 2 ^ (23 + k) \<le> n" and "n < 2 ^ (24 + k)" and "nearest_even k n r"
  shows "round_to_float n = r"
proof -
  have "sig_shift n = k"
    using assms(1,2) by (rule sig_shift_eq)
  then show ?thesis
    using nearest_even_unique [OF assms(3)] by (simp add: round_to_float_def Let_def)
qed

lemma nat_abs_lower:
  fixes x :: int
  assumes "k = 0 \<or> 2 ^ (23 + k) \<le> \<bar>x\<bar>"
  shows "k = 0 \<or> 2 ^ (23 + k) \<le> nat \<bar>x\<bar>"
proof (cases "k = 0")
  case True
  then show ?thesis
    by (rule disjI1)
next
  case False
  with assms have "(2::int) ^ (23 + k) \<le> \<bar>x\<bar>"
    by blast
  then have "int (2 ^ (23 + k)) \<le> \<bar>x\<bar>"
    by (simp only: of_nat_power of_nat_numeral)
  then have "2 ^ (23 + k) \<le> nat \<bar>x\<bar>"
    by (simp only: le_nat_iff [OF abs_ge_zero])
  then show ?thesis
    by (rule disjI2)
qed

lemma nat_abs_upper:
  fixes x :: int
  assumes "\<bar>x\<bar> < 2 ^ (24 + k)"
  shows "nat \<bar>x\<bar> < 2 ^ (24 + k)"
proof -
  have "int (nat \<bar>x\<bar>) = \<bar>x\<bar>"
    by (rule nat_0_le) (rule abs_ge_zero)
  with assms have "int (nat \<bar>x\<bar>) < int (2 ^ (24 + k))"
    by (simp only: of_nat_power of_nat_numeral)
  then show ?thesis
    by (simp only: of_nat_less_iff)
qed

lemma int32_to_float_nearest:
  assumes "k = 0 \<or> 2 ^ (23 + k) \<le> \<bar>sint i\<bar>" and "\<bar>sint i\<bar> < 2 ^ (24 + k)"
    and "nearest_even k (nat \<bar>sint i\<bar>) r"
  shows "int32_to_float i = FFinite ((if sint i < 0 then - int r else int r) * 2 ^ 149)"
proof -
  have r: "round_to_float (nat \<bar>sint i\<bar>) = r"
    using nat_abs_lower [OF assms(1)] nat_abs_upper [OF assms(2)] assms(3)
    by (rule round_to_float_nearest)
  show ?thesis
  proof (cases "sint i < 0")
    case True
    then have "nat (- sint i) = nat \<bar>sint i\<bar>"
      by (simp only: abs_of_neg)
    with r have "round_to_float (nat (- sint i)) = r"
      by (simp only:)
    with True show ?thesis
      by (simp only: int32_to_float_def if_True)
  next
    case False
    then have "nat (sint i) = nat \<bar>sint i\<bar>"
      by (simp only: abs_of_nonneg not_less)
    with r have "round_to_float (nat (sint i)) = r"
      by (simp only:)
    with False show ?thesis
      by (simp only: int32_to_float_def if_False)
  qed
qed

text \<open>The bit patterns of some \<^verbatim>\<open>float\<close> values used below.\<close>

lemma float_val_2_24: "float_val 0x4B800000 = FFinite (16777216 * 2 ^ 149)"
  by (simp add: float_val_def float_exponent_def float_fraction_def float_sign_def
      float_magnitude_def)

lemma float_val_neg_2_24: "float_val 0xCB800000 = FFinite (- (16777216 * 2 ^ 149))"
  by (simp add: float_val_def float_exponent_def float_fraction_def float_sign_def
      float_magnitude_def)

lemma float_val_pos_inf: "float_val 0x7F800000 = FInf False"
  by (simp add: float_val_def float_exponent_def float_fraction_def float_sign_def)

lemma float_val_neg_inf: "float_val 0xFF800000 = FInf True"
  by (simp add: float_val_def float_exponent_def float_fraction_def float_sign_def)

lemma float_is_nan_quiet: "float_is_nan 0x7FC00000"
  by (simp add: float_is_nan_def float_exponent_def float_fraction_def)

lemma int32_to_float_finite: "\<exists>a. int32_to_float i = FFinite a"
  by (simp add: int32_to_float_def)

text \<open>
  The other direction: the number of bits beyond 24 and the rounded number are such a
  \<open>k\<close> and \<open>r\<close>, for every \<open>n\<close>.
\<close>

lemma sig_shift_bounds:
  "(sig_shift n = 0 \<or> 2 ^ (23 + sig_shift n) \<le> n) \<and> n < 2 ^ (24 + sig_shift n)"
proof (induction n rule: sig_shift.induct)
  case (1 n)
  show ?case
  proof (cases "n < 2 ^ 24")
    case True
    then have "sig_shift n = 0"
      by (simp add: sig_shift.simps)
    with True show ?thesis
      by simp
  next
    case False
    define s where "s = sig_shift (n div 2)"
    from False have k: "sig_shift n = Suc s"
      by (subst sig_shift.simps) (simp add: s_def)
    from 1 [OF False] have lo: "s = 0 \<or> 2 ^ (23 + s) \<le> n div 2"
      and hi: "n div 2 < 2 ^ (24 + s)"
      by (simp_all add: s_def)
    have "2 ^ (24 + s) \<le> n"
    proof (cases "s = 0")
      case True
      with False show ?thesis
        by simp
    next
      case nz: False
      with lo have "2 ^ (23 + s) \<le> n div 2"
        by simp
      then have "2 * 2 ^ (23 + s) \<le> 2 * (n div 2)"
        by simp
      also have "\<dots> \<le> n"
        by simp
      finally show ?thesis
        by (simp add: power_add)
    qed
    moreover have "n < 2 ^ (25 + s)"
    proof -
      from hi have "n div 2 + 1 \<le> 2 ^ (24 + s)"
        by simp
      then have "2 * (n div 2 + 1) \<le> 2 * 2 ^ (24 + s)"
        by (simp only: mult_le_mono2)
      moreover have "n < 2 * (n div 2 + 1)"
        by simp
      ultimately show ?thesis
        by (simp add: power_add)
    qed
    ultimately show ?thesis
      by (simp add: k)
  qed
qed

lemma nearest_even_round:
  fixes k n :: nat
  defines "q \<equiv> n div 2 ^ k" and "t \<equiv> n mod 2 ^ k"
  shows "nearest_even k n
    (if 2 ^ k < 2 * t \<or> (2 * t = 2 ^ k \<and> odd q) then (q + 1) * 2 ^ k else q * 2 ^ k)"
proof -
  define K :: nat where "K = 2 ^ k"
  have n: "n = q * K + t"
    unfolding q_def t_def K_def by (simp only: div_mult_mod_eq)
  have t: "t < K"
    by (simp add: t_def K_def)
  have K: "0 < K"
    by (simp add: K_def)
  show ?thesis
  proof (cases "K < 2 * t \<or> (2 * t = K \<and> odd q)")
    case True
    then have ge: "K \<le> 2 * t"
      by auto
    have d: "int ((q + 1) * K) - int n = int K - int t"
      by (simp add: n algebra_simps)
    have a: "\<bar>int K - int t\<bar> = int K - int t"
      using t by simp
    have "2 * (int K - int t) \<le> int K"
      using ge by simp
    moreover have "even (q + 1)" if "2 * (int K - int t) = int K"
    proof -
      from that have "2 * t = K"
        by simp
      with True show ?thesis
        by simp
    qed
    moreover have "(q + 1) * K div K = q + 1"
      using K by simp
    ultimately have "nearest_even k n ((q + 1) * K)"
      unfolding nearest_even_def K_def [symmetric] d a
      by (simp only: dvd_triv_right of_nat_numeral of_nat_power simp_thms K_def) simp
    with True show ?thesis
      unfolding K_def by (simp only: if_True)
  next
    case False
    then have le: "2 * t \<le> K"
      by auto
    have d: "int (q * K) - int n = - int t"
      by (simp add: n)
    have a: "\<bar>- int t\<bar> = int t"
      by simp
    have "2 * int t \<le> int K"
      using le by simp
    moreover have "even q" if "2 * int t = int K"
    proof -
      from that have "2 * t = K"
        by simp
      with False show ?thesis
        by simp
    qed
    moreover have "q * K div K = q"
      using K by simp
    ultimately have "nearest_even k n (q * K)"
      unfolding nearest_even_def K_def [symmetric] d a
      by (simp only: dvd_triv_right of_nat_numeral of_nat_power simp_thms K_def) simp
    with False show ?thesis
      unfolding K_def by (simp only: if_False)
  qed
qed

lemma round_to_float_nearest_even: "nearest_even (sig_shift n) n (round_to_float n)"
  using nearest_even_round [of "sig_shift n" n] by (simp add: round_to_float_def Let_def)

lemma height_rounds:
  fixes y :: int
  shows "\<exists>k r. (k = 0 \<or> 2 ^ (23 + k) \<le> \<bar>y\<bar>) \<and> \<bar>y\<bar> < 2 ^ (24 + k)
    \<and> nearest_even k (nat \<bar>y\<bar>) r"
proof -
  define n where "n = nat \<bar>y\<bar>"
  define k where "k = sig_shift n"
  have y: "\<bar>y\<bar> = int n"
    by (simp add: n_def)
  from sig_shift_bounds [of n] have lo: "k = 0 \<or> 2 ^ (23 + k) \<le> n" and hi: "n < 2 ^ (24 + k)"
    by (simp_all add: k_def)
  from lo have "k = 0 \<or> int (2 ^ (23 + k)) \<le> int n"
    by (simp only: of_nat_le_iff)
  then have lo': "k = 0 \<or> 2 ^ (23 + k) \<le> \<bar>y\<bar>"
    by (simp only: y of_nat_power of_nat_numeral)
  from hi have "int n < int (2 ^ (24 + k))"
    by (simp only: of_nat_less_iff)
  then have hi': "\<bar>y\<bar> < 2 ^ (24 + k)"
    by (simp only: y of_nat_power of_nat_numeral)
  have "nearest_even k (nat \<bar>y\<bar>) (round_to_float n)"
    unfolding k_def n_def [symmetric] by (rule round_to_float_nearest_even)
  with lo' hi' show ?thesis
    by blast
qed

subsection \<open>The derived multi-line setting\<close>

text \<open>
  Claim C6, as stated: with a width other than 0 and left alignment,
  \<^verbatim>\<open>get_multi_line_setting()\<close> is true exactly when the requested height is 0 or
  exceeds the font size. The comparison of the source is \<^verbatim>\<open>size_.y() > font_size_\<close>
  with the height converted to \<^verbatim>\<open>float\<close>, and the conversion rounds. With the font
  size \<open>16777216.0\<close> (the pattern \<^verbatim>\<open>0x4B800000\<close>) and the height \<open>16777217\<close>, the
  height is not 0 and exceeds the font size, but it converts to \<open>16777216.0\<close> and the
  result is false.
\<close>

theorem get_multi_line_setting_height_rounds:
  "vec_x (get_size
      (FontBufferParameters_init 0 (1 :: nat) 2 0x4B800000 (100, 16777217) kTextAlignmentLeft 0
        False)) \<noteq> 0
   \<and> get_text_alignment
      (FontBufferParameters_init 0 (1 :: nat) 2 0x4B800000 (100, 16777217) kTextAlignmentLeft 0
        False) = kTextAlignmentLeft
   \<and> sint (vec_y (get_size
      (FontBufferParameters_init 0 (1 :: nat) 2 0x4B800000 (100, 16777217) kTextAlignmentLeft 0
        False))) = 16777217
   \<and> float_val (get_font_size
      (FontBufferParameters_init 0 (1 :: nat) 2 0x4B800000 (100, 16777217) kTextAlignmentLeft 0
        False)) = FFinite (16777216 * 2 ^ 149)
   \<and> \<not> get_multi_line_setting
      (FontBufferParameters_init 0 (1 :: nat) 2 0x4B800000 (100, 16777217) kTextAlignmentLeft 0
        False)"
proof -
  have "int32_to_float 16777217 = FFinite ((if sint (16777217 :: int32_t) < 0
      then - int 16777216 else int 16777216) * 2 ^ 149)"
    by (rule int32_to_float_nearest [where k = 1]) (simp_all add: nearest_even_def)
  then have "int32_to_float 16777217 = FFinite (16777216 * 2 ^ 149)"
    by simp
  then show ?thesis
    by (simp add: get_multi_line_setting_def get_text_alignment_def get_size_def
        get_font_size_def FontBufferParameters_init_def flags_text_alignement_def
        set_flags_text_alignement_def set_flags_glyph_flags_def set_flags_caret_info_def
        kTextAlignmentLeft_def vec_x_def vec_y_def float_val_2_24)
qed

text \<open>
  Claim C6, amended. \<^verbatim>\<open>get_multi_line_setting()\<close> is false when the requested width
  is 0; otherwise it is true when the alignment is not left; otherwise it is true when
  the requested height is 0; otherwise it is the comparison \<^verbatim>\<open>size_.y() > font_size_\<close>
  on \<^verbatim>\<open>float\<close> operands:
  \<^item> false when the font size is a NaN or \<open>+\<infinity>\<close>, true when it is \<open>-\<infinity>\<close>;
  \<^item> for a finite font size of value \<open>v * 2^-149\<close> and a height of magnitude up to
    \<open>2^24\<close>, the comparison of the numbers, \<open>v * 2^-149 < height\<close>;
  \<^item> for a finite font size and any height, the comparison of the font size with the
    height rounded to 24 significant bits, to nearest, ties to even: \<open>r\<close> is the
    magnitude of the rounded height, \<open>k\<close> the number of bits that the magnitude has
    beyond 24. Every height has such a \<open>k\<close> and \<open>r\<close> (the last conjunct).
\<close>

theorem get_multi_line_setting_cases:
  "(vec_x (get_size p) = 0 \<longrightarrow> \<not> get_multi_line_setting p)
   \<and> (vec_x (get_size p) \<noteq> 0 \<and> get_text_alignment p \<noteq> kTextAlignmentLeft
        \<longrightarrow> get_multi_line_setting p)
   \<and> (vec_x (get_size p) \<noteq> 0 \<and> get_text_alignment p = kTextAlignmentLeft
        \<and> vec_y (get_size p) = 0
        \<longrightarrow> get_multi_line_setting p)
   \<and> (vec_x (get_size p) \<noteq> 0 \<and> get_text_alignment p = kTextAlignmentLeft
        \<and> vec_y (get_size p) \<noteq> 0 \<and> float_is_nan (get_font_size p)
        \<longrightarrow> \<not> get_multi_line_setting p)
   \<and> (vec_x (get_size p) \<noteq> 0 \<and> get_text_alignment p = kTextAlignmentLeft
        \<and> vec_y (get_size p) \<noteq> 0 \<and> get_font_size p = 0x7F800000
        \<longrightarrow> \<not> get_multi_line_setting p)
   \<and> (vec_x (get_size p) \<noteq> 0 \<and> get_text_alignment p = kTextAlignmentLeft
        \<and> vec_y (get_size p) \<noteq> 0 \<and> get_font_size p = 0xFF800000
        \<longrightarrow> get_multi_line_setting p)
   \<and> (vec_x (get_size p) \<noteq> 0 \<and> get_text_alignment p = kTextAlignmentLeft
        \<and> float_val (get_font_size p) = FFinite v
        \<and> \<bar>sint (vec_y (get_size p))\<bar> \<le> 2 ^ 24
        \<longrightarrow> get_multi_line_setting p =
            (vec_y (get_size p) = 0 \<or> v < sint (vec_y (get_size p)) * 2 ^ 149))
   \<and> (vec_x (get_size p) \<noteq> 0 \<and> get_text_alignment p = kTextAlignmentLeft
        \<and> float_val (get_font_size p) = FFinite v
        \<and> (k = 0 \<or> 2 ^ (23 + k) \<le> \<bar>sint (vec_y (get_size p))\<bar>)
        \<and> \<bar>sint (vec_y (get_size p))\<bar> < 2 ^ (24 + k)
        \<and> nearest_even k (nat \<bar>sint (vec_y (get_size p))\<bar>) r
        \<longrightarrow> get_multi_line_setting p =
            (vec_y (get_size p) = 0 \<or>
             v < (if sint (vec_y (get_size p)) < 0 then - int r else int r) * 2 ^ 149))
   \<and> (\<exists>j s. (j = 0 \<or> 2 ^ (23 + j) \<le> \<bar>sint (vec_y (get_size p))\<bar>)
        \<and> \<bar>sint (vec_y (get_size p))\<bar> < 2 ^ (24 + j)
        \<and> nearest_even j (nat \<bar>sint (vec_y (get_size p))\<bar>) s)"
proof (intro conjI impI)
  assume "vec_x (get_size p) = 0"
  then show "\<not> get_multi_line_setting p"
    by (simp add: get_multi_line_setting_def get_size_def)
next
  assume "vec_x (get_size p) \<noteq> 0 \<and> get_text_alignment p \<noteq> kTextAlignmentLeft"
  then show "get_multi_line_setting p"
    by (simp add: get_multi_line_setting_def get_size_def)
next
  assume "vec_x (get_size p) \<noteq> 0 \<and> get_text_alignment p = kTextAlignmentLeft
      \<and> vec_y (get_size p) = 0"
  then show "get_multi_line_setting p"
    by (simp add: get_multi_line_setting_def get_size_def)
next
  assume a: "vec_x (get_size p) \<noteq> 0 \<and> get_text_alignment p = kTextAlignmentLeft
      \<and> vec_y (get_size p) \<noteq> 0 \<and> float_is_nan (get_font_size p)"
  then have "float_val (font_size p) = FNaN"
    by (simp add: float_is_nan_val get_font_size_def)
  moreover obtain h where "int32_to_float (vec_y (size_vec p)) = FFinite h"
    using int32_to_float_finite by blast
  ultimately show "\<not> get_multi_line_setting p"
    using a by (simp add: get_multi_line_setting_def get_size_def)
next
  assume a: "vec_x (get_size p) \<noteq> 0 \<and> get_text_alignment p = kTextAlignmentLeft
      \<and> vec_y (get_size p) \<noteq> 0 \<and> get_font_size p = 0x7F800000"
  then have "float_val (font_size p) = FInf False"
    by (simp add: float_val_pos_inf get_font_size_def)
  moreover obtain h where "int32_to_float (vec_y (size_vec p)) = FFinite h"
    using int32_to_float_finite by blast
  ultimately show "\<not> get_multi_line_setting p"
    using a by (simp add: get_multi_line_setting_def get_size_def)
next
  assume a: "vec_x (get_size p) \<noteq> 0 \<and> get_text_alignment p = kTextAlignmentLeft
      \<and> vec_y (get_size p) \<noteq> 0 \<and> get_font_size p = 0xFF800000"
  then have "float_val (font_size p) = FInf True"
    by (simp add: float_val_neg_inf get_font_size_def)
  moreover obtain h where "int32_to_float (vec_y (size_vec p)) = FFinite h"
    using int32_to_float_finite by blast
  ultimately show "get_multi_line_setting p"
    using a by (simp add: get_multi_line_setting_def get_size_def)
next
  assume a: "vec_x (get_size p) \<noteq> 0 \<and> get_text_alignment p = kTextAlignmentLeft
      \<and> float_val (get_font_size p) = FFinite v
      \<and> \<bar>sint (vec_y (get_size p))\<bar> \<le> 2 ^ 24"
  then have left: "vec_x (size_vec p) \<noteq> 0" "get_text_alignment p = kTextAlignmentLeft"
    and fin: "float_val (font_size p) = FFinite v"
    by (simp_all add: get_size_def get_font_size_def)
  from a have "\<bar>sint (vec_y (size_vec p))\<bar> \<le> 2 ^ 24"
    by (simp add: get_size_def)
  then have "- (2 ^ 24) \<le> sint (vec_y (size_vec p))" and "sint (vec_y (size_vec p)) \<le> 2 ^ 24"
    by (simp_all add: abs_le_iff)
  then have "int32_to_float (vec_y (size_vec p)) = FFinite (sint (vec_y (size_vec p)) * 2 ^ 149)"
    by (rule int32_to_float_exact)
  with left fin show "get_multi_line_setting p =
      (vec_y (get_size p) = 0 \<or> v < sint (vec_y (get_size p)) * 2 ^ 149)"
    by (simp only: get_multi_line_setting_def get_size_def fval_gt.simps simp_thms if_False)
next
  assume a: "vec_x (get_size p) \<noteq> 0 \<and> get_text_alignment p = kTextAlignmentLeft
      \<and> float_val (get_font_size p) = FFinite v
      \<and> (k = 0 \<or> 2 ^ (23 + k) \<le> \<bar>sint (vec_y (get_size p))\<bar>)
      \<and> \<bar>sint (vec_y (get_size p))\<bar> < 2 ^ (24 + k)
      \<and> nearest_even k (nat \<bar>sint (vec_y (get_size p))\<bar>) r"
  then have left: "vec_x (size_vec p) \<noteq> 0" "get_text_alignment p = kTextAlignmentLeft"
    and fin: "float_val (font_size p) = FFinite v"
    by (simp_all add: get_size_def get_font_size_def)
  from a have lo: "k = 0 \<or> 2 ^ (23 + k) \<le> \<bar>sint (vec_y (size_vec p))\<bar>"
    and hi: "\<bar>sint (vec_y (size_vec p))\<bar> < 2 ^ (24 + k)"
    and near: "nearest_even k (nat \<bar>sint (vec_y (size_vec p))\<bar>) r"
    by (simp_all only: get_size_def)
  have "int32_to_float (vec_y (size_vec p)) =
      FFinite ((if sint (vec_y (size_vec p)) < 0 then - int r else int r) * 2 ^ 149)"
    using lo hi near by (rule int32_to_float_nearest)
  with left fin show "get_multi_line_setting p =
      (vec_y (get_size p) = 0 \<or>
       v < (if sint (vec_y (get_size p)) < 0 then - int r else int r) * 2 ^ 149)"
    by (simp only: get_multi_line_setting_def get_size_def fval_gt.simps simp_thms if_False)
next
  show "\<exists>j s. (j = 0 \<or> 2 ^ (23 + j) \<le> \<bar>sint (vec_y (get_size p))\<bar>)
      \<and> \<bar>sint (vec_y (get_size p))\<bar> < 2 ^ (24 + j)
      \<and> nearest_even j (nat \<bar>sint (vec_y (get_size p))\<bar>) s"
    by (rule height_rounds)
qed

text \<open>
  Font size 12: a request of width 0 is single-line; a centered request of width 100 is
  multi-line; a left-aligned one is multi-line for height 0 and height 50, and
  single-line for height 12. A left-aligned request of width 100 and height 5 is
  single-line for a NaN font size and for \<open>+\<infinity>\<close>, and multi-line for \<open>-\<infinity>\<close>. With
  the font size \<open>16777216.0\<close>, the height \<open>16777217\<close> rounds to \<open>16777216\<close> and is
  single-line, the height \<open>16777219\<close> rounds to \<open>16777220\<close> and is multi-line; with the
  font size \<open>-16777216.0\<close>, the height \<open>-16777217\<close> rounds to \<open>-16777216\<close> and is
  single-line.
\<close>

theorem get_multi_line_setting_cases_witness:
  "\<not> get_multi_line_setting
      (FontBufferParameters_init 0 (1 :: nat) 2 0x41400000 (0, 50) kTextAlignmentCenter 0 False)
   \<and> get_multi_line_setting
      (FontBufferParameters_init 0 (1 :: nat) 2 0x41400000 (100, 5) kTextAlignmentCenter 0 False)
   \<and> get_multi_line_setting
      (FontBufferParameters_init 0 (1 :: nat) 2 0x41400000 (100, 0) kTextAlignmentLeft 0 False)
   \<and> \<not> get_multi_line_setting
      (FontBufferParameters_init 0 (1 :: nat) 2 0x7FC00000 (100, 5) kTextAlignmentLeft 0 False)
   \<and> \<not> get_multi_line_setting
      (FontBufferParameters_init 0 (1 :: nat) 2 0x7F800000 (100, 5) kTextAlignmentLeft 0 False)
   \<and> get_multi_line_setting
      (FontBufferParameters_init 0 (1 :: nat) 2 0xFF800000 (100, 5) kTextAlignmentLeft 0 False)
   \<and> get_multi_line_setting
      (FontBufferParameters_init 0 (1 :: nat) 2 0x41400000 (100, 50) kTextAlignmentLeft 0 False)
   \<and> \<not> get_multi_line_setting
      (FontBufferParameters_init 0 (1 :: nat) 2 0x41400000 (100, 12) kTextAlignmentLeft 0 False)
   \<and> \<not> get_multi_line_setting
      (FontBufferParameters_init 0 (1 :: nat) 2 0x4B800000 (100, 16777217)
        kTextAlignmentLeft 0 False)
   \<and> get_multi_line_setting
      (FontBufferParameters_init 0 (1 :: nat) 2 0x4B800000 (100, 16777219)
        kTextAlignmentLeft 0 False)
   \<and> \<not> get_multi_line_setting
      (FontBufferParameters_init 0 (1 :: nat) 2 0xCB800000 (100, - 16777217)
        kTextAlignmentLeft 0 False)"
  using
    get_multi_line_setting_cases
      [where p = "FontBufferParameters_init 0 (1 :: nat) 2 0x41400000 (0, 50)
        kTextAlignmentCenter 0 False"
         and v = "0" and k = 0 and r = 0]
    get_multi_line_setting_cases
      [where p = "FontBufferParameters_init 0 (1 :: nat) 2 0x41400000 (100, 5)
        kTextAlignmentCenter 0 False"
         and v = "0" and k = 0 and r = 0]
    get_multi_line_setting_cases
      [where p = "FontBufferParameters_init 0 (1 :: nat) 2 0x41400000 (100, 0)
        kTextAlignmentLeft 0 False"
         and v = "0" and k = 0 and r = 0]
    get_multi_line_setting_cases
      [where p = "FontBufferParameters_init 0 (1 :: nat) 2 0x7FC00000 (100, 5)
        kTextAlignmentLeft 0 False"
         and v = "0" and k = 0 and r = 0]
    get_multi_line_setting_cases
      [where p = "FontBufferParameters_init 0 (1 :: nat) 2 0x7F800000 (100, 5)
        kTextAlignmentLeft 0 False"
         and v = "0" and k = 0 and r = 0]
    get_multi_line_setting_cases
      [where p = "FontBufferParameters_init 0 (1 :: nat) 2 0xFF800000 (100, 5)
        kTextAlignmentLeft 0 False"
         and v = "0" and k = 0 and r = 0]
    get_multi_line_setting_cases
      [where p = "FontBufferParameters_init 0 (1 :: nat) 2 0x41400000 (100, 50)
        kTextAlignmentLeft 0 False"
         and v = "12 * 2 ^ 149" and k = 0 and r = 50]
    get_multi_line_setting_cases
      [where p = "FontBufferParameters_init 0 (1 :: nat) 2 0x41400000 (100, 12)
        kTextAlignmentLeft 0 False"
         and v = "12 * 2 ^ 149" and k = 0 and r = 12]
    get_multi_line_setting_cases
      [where p = "FontBufferParameters_init 0 (1 :: nat) 2 0x4B800000 (100, 16777217)
        kTextAlignmentLeft 0 False"
         and v = "16777216 * 2 ^ 149" and k = 1 and r = 16777216]
    get_multi_line_setting_cases
      [where p = "FontBufferParameters_init 0 (1 :: nat) 2 0x4B800000 (100, 16777219)
        kTextAlignmentLeft 0 False"
         and v = "16777216 * 2 ^ 149" and k = 1 and r = 16777220]
    get_multi_line_setting_cases
      [where p = "FontBufferParameters_init 0 (1 :: nat) 2 0xCB800000 (100, - 16777217)
        kTextAlignmentLeft 0 False"
         and v = "- (16777216 * 2 ^ 149)" and k = 1 and r = 16777216]
  by (simp add: get_text_alignment_def get_size_def get_font_size_def
      FontBufferParameters_init_def flags_text_alignement_def set_flags_text_alignement_def
      set_flags_glyph_flags_def set_flags_caret_info_def kTextAlignmentLeft_def
      kTextAlignmentCenter_def vec_x_def vec_y_def float_val_12 float_val_2_24
      float_val_neg_2_24 float_is_nan_def float_exponent_def float_fraction_def
      nearest_even_def)

subsection \<open>Equality of parameter sets\<close>

text \<open>
  Claim C2, as stated: \<^verbatim>\<open>operator==\<close> is true exactly when every field matches bit
  for bit, the font sizes compared as bit patterns. It is not: \<^verbatim>\<open>font_size_ ==
  other.font_size_\<close> compares two \<^verbatim>\<open>float\<close> values. Two parameter sets that differ
  only in the sign bit of a zero font size are equal, and a parameter set whose font
  size is a NaN is not equal to itself.
\<close>

theorem operator_eq_not_bitwise:
  "operator_eq
     (FontBufferParameters_init 0 (1 :: nat) 2 0 (100, 0) kTextAlignmentLeft 0 False)
     (FontBufferParameters_init 0 (1 :: nat) 2 0x80000000 (100, 0) kTextAlignmentLeft 0 False)
   \<and> FontBufferParameters_init 0 (1 :: nat) 2 0 (100, 0) kTextAlignmentLeft 0 False
     \<noteq> FontBufferParameters_init 0 (1 :: nat) 2 0x80000000 (100, 0) kTextAlignmentLeft 0 False
   \<and> \<not> operator_eq
     (FontBufferParameters_init 0 (1 :: nat) 2 0x7FC00000 (100, 0) kTextAlignmentLeft 0 False)
     (FontBufferParameters_init 0 (1 :: nat) 2 0x7FC00000 (100, 0) kTextAlignmentLeft 0 False)"
  by (simp add: operator_eq_def FontBufferParameters_init_def float_eq_iff float_is_zero_def
      float_is_nan_def float_exponent_def float_fraction_def vec_x_def vec_y_def)

text \<open>
  Claim C2, amended: \<^verbatim>\<open>operator==\<close> is true exactly when the two ids, the two
  components of the requested size and the packed flags word are the same and the font
  sizes are equal as IEEE numbers: neither is a NaN, and they are the same bit pattern or
  both are zeros (of either sign).
\<close>

theorem operator_eq_iff:
  "operator_eq a b =
     (font_id a = font_id b \<and> text_id a = text_id b \<and>
      vec_x (get_size a) = vec_x (get_size b) \<and> vec_y (get_size a) = vec_y (get_size b) \<and>
      flags_value a = flags_value b \<and>
      \<not> float_is_nan (get_font_size a) \<and> \<not> float_is_nan (get_font_size b) \<and>
      (get_font_size a = get_font_size b \<or>
       (float_is_zero (get_font_size a) \<and> float_is_zero (get_font_size b))))"
proof -
  have "float_eq (font_size a) (font_size b) =
     (\<not> float_is_nan (font_size a) \<and> \<not> float_is_nan (font_size b) \<and>
      (font_size a = font_size b \<or>
       (float_is_zero (font_size a) \<and> float_is_zero (font_size b))))"
    by (rule float_eq_iff)
  then show ?thesis
    unfolding operator_eq_def get_size_def get_font_size_def by auto
qed

subsection \<open>Parameter sets built from tuples\<close>

text \<open>The bits of the flags word after the constructor's three bit-field assignments.\<close>

lemma bit_const_1: "bit (1 :: uint32_t) n = (n = 0)"
  by (simp add: bit_1_iff)

lemma bit_const_6: "bit (6 :: uint32_t) n = (1 \<le> n \<and> n < 3)"
proof -
  have "(6 :: uint32_t) = push_bit 1 (mask 2)"
    by (simp add: mask_eq_exp_minus_1)
  then have "bit (6 :: uint32_t) n = bit (push_bit 1 (mask 2) :: uint32_t) n"
    by (rule arg_cong)
  also have "\<dots> = (1 \<le> n \<and> n < 3)"
    by (simp only: bit_push_bit_iff bit_mask_iff) (auto simp: possible_bit_word)
  finally show ?thesis .
qed

lemma bit_const_56: "bit (56 :: uint32_t) n = (3 \<le> n \<and> n < 6)"
proof -
  have "(56 :: uint32_t) = push_bit 3 (mask 3)"
    by (simp add: mask_eq_exp_minus_1)
  then have "bit (56 :: uint32_t) n = bit (push_bit 3 (mask 3) :: uint32_t) n"
    by (rule arg_cong)
  also have "\<dots> = (3 \<le> n \<and> n < 6)"
    by (simp only: bit_push_bit_iff bit_mask_iff) (auto simp: possible_bit_word)
  finally show ?thesis .
qed

lemma bit_init_flags:
  "bit (set_flags_caret_info c (set_flags_glyph_flags g (set_flags_text_alignement a w))) n =
     (if n = 0 then c
      else if n < 3 then bit g (n - 1)
      else if n < 6 then bit a (n - 3)
      else bit w n)"
  unfolding set_flags_caret_info_def set_flags_glyph_flags_def set_flags_text_alignement_def
  apply (simp only: bit_or_iff bit_and_iff bit_not_iff bit_push_bit_iff bit_ucast_iff
      bit_const_1 bit_const_6 bit_const_56 if_distrib [of "\<lambda>x. bit x n"] bit_0_eq)
  apply (auto simp: possible_bit_word dest: bit_imp_le_length)
  done

text \<open>The getters read back what the constructor was given.\<close>

lemma text_alignement_of_init:
  "flags_text_alignement
     (set_flags_caret_info c (set_flags_glyph_flags g (set_flags_text_alignement a w))) = a"
  unfolding flags_text_alignement_def
  by (rule bit_eqI) (auto simp: bit_ucast_iff bit_drop_bit_eq bit_init_flags possible_bit_word
      dest: bit_imp_le_length)

lemma glyph_flags_of_init:
  "flags_glyph_flags
     (set_flags_caret_info c (set_flags_glyph_flags g (set_flags_text_alignement a w))) = g"
  unfolding flags_glyph_flags_def
  by (rule bit_eqI) (auto simp: bit_ucast_iff bit_drop_bit_eq bit_init_flags possible_bit_word
      dest: bit_imp_le_length)

lemma caret_info_of_init:
  "flags_caret_info
     (set_flags_caret_info c (set_flags_glyph_flags g (set_flags_text_alignement a w))) = c"
  unfolding flags_caret_info_def
  by (simp add: bit_init_flags)

text \<open>Bits 6 to 31 of the flags word are those the storage held before.\<close>

lemma storage_of_init:
  "drop_bit 6 (set_flags_caret_info c (set_flags_glyph_flags g (set_flags_text_alignement a w)))
     = drop_bit 6 w"
  by (rule bit_eqI) (simp add: bit_drop_bit_eq bit_init_flags)

lemma init_flags_eq_iff:
  "(set_flags_caret_info c (set_flags_glyph_flags g (set_flags_text_alignement a w)) =
    set_flags_caret_info c' (set_flags_glyph_flags g' (set_flags_text_alignement a' w'))) =
   (c = c' \<and> g = g' \<and> a = a' \<and> drop_bit 6 w = drop_bit 6 w')"
proof
  assume eq: "set_flags_caret_info c (set_flags_glyph_flags g (set_flags_text_alignement a w)) =
    set_flags_caret_info c' (set_flags_glyph_flags g' (set_flags_text_alignement a' w'))"
  from arg_cong [OF eq, of flags_caret_info] arg_cong [OF eq, of flags_glyph_flags]
    arg_cong [OF eq, of flags_text_alignement] arg_cong [OF eq, of "drop_bit 6"]
  show "c = c' \<and> g = g' \<and> a = a' \<and> drop_bit 6 w = drop_bit 6 w'"
    by (simp add: text_alignement_of_init glyph_flags_of_init caret_info_of_init
        storage_of_init)
next
  assume r: "c = c' \<and> g = g' \<and> a = a' \<and> drop_bit 6 w = drop_bit 6 w'"
  have "bit w n = bit w' n" if "6 \<le> n" for n
  proof -
    from r have "bit (drop_bit 6 w) (n - 6) = bit (drop_bit 6 w') (n - 6)"
      by simp
    with that show ?thesis
      by (simp add: bit_drop_bit_eq)
  qed
  with r show "set_flags_caret_info c (set_flags_glyph_flags g (set_flags_text_alignement a w)) =
    set_flags_caret_info c' (set_flags_glyph_flags g' (set_flags_text_alignement a' w'))"
    by (intro bit_eqI) (simp add: bit_init_flags)
qed

text \<open>
  Two parameter sets built from tuples are equal under \<^verbatim>\<open>operator==\<close> exactly when
  the tuples agree (the font sizes as IEEE numbers) and the storage the two objects were
  built in held the same bits 6 to 31. Tuples that differ in a field other than the font
  size are therefore never equal, whatever the storage held; equal tuples are equal only
  where the storage agrees.
\<close>

lemma operator_eq_init:
  "operator_eq (FontBufferParameters_init w fid tid fs sz a g c)
     (FontBufferParameters_init w' fid' tid' fs' sz' a' g' c') =
   (fid = fid' \<and> tid = tid' \<and> float_eq fs fs' \<and> sz = sz' \<and> a = a' \<and> g = g' \<and> c = c'
    \<and> drop_bit 6 w = drop_bit 6 w')"
  by (auto simp: operator_eq_def FontBufferParameters_init_def init_flags_eq_iff vec_x_def
      vec_y_def prod_eq_iff)

text \<open>The hash reads the font size, the flags word and the requested size of the key.\<close>

lemma operator_hash_equal_keys:
  assumes "font_size k = font_size k'" and "size_vec k = size_vec k'"
    and "flags_value k = flags_value k'"
  shows "operator_hash hf hi this k = operator_hash hf hi this k'"
  using assms by (simp add: operator_hash_def)

text \<open>
  Claim C1. Equal tuples should give equal fingerprints. The constructor of lines 167
  to 177 leaves bits 6 to 31 of \<^verbatim>\<open>flags_value_\<close> as the storage held them (the
  default constructor of line 152 sets the word to 0), and \<^verbatim>\<open>operator==\<close> and
  \<^verbatim>\<open>operator()\<close> read the whole word. The tuple (1, 2, 12.0, (100, 0), left, 0, false),
  built once in storage that held 0 and once in storage that held \<open>0x40\<close>, gives two
  parameter sets that are not equal. Their hash values differ as well, whatever
  \<^verbatim>\<open>std::hash<float>\<close> is, where \<^verbatim>\<open>std::hash<int32_t>\<close> is the conversion of the value
  to \<^verbatim>\<open>size_t\<close> (as the common standard libraries have it) and the hasher is a
  default-constructed parameter set.
\<close>

theorem equal_tuples_compare_unequal:
  "\<not> operator_eq
      (FontBufferParameters_init 0 (1 :: 32 word) 2 0x41400000 (100, 0) kTextAlignmentLeft 0 False)
      (FontBufferParameters_init 0x40 (1 :: 32 word) 2 0x41400000 (100, 0) kTextAlignmentLeft 0
        False)
   \<and> flags_value
      (FontBufferParameters_init 0 (1 :: 32 word) 2 0x41400000 (100, 0) kTextAlignmentLeft 0 False)
     = 0
   \<and> flags_value
      (FontBufferParameters_init 0x40 (1 :: 32 word) 2 0x41400000 (100, 0) kTextAlignmentLeft 0
        False)
     = 0x40
   \<and> (\<forall>hf.
        operator_hash hf scast (FontBufferParameters_default (0 :: 32 word))
          (FontBufferParameters_init 0 (1 :: 32 word) 2 0x41400000 (100, 0) kTextAlignmentLeft 0
            False)
        \<noteq> operator_hash hf scast (FontBufferParameters_default (0 :: 32 word))
          (FontBufferParameters_init 0x40 (1 :: 32 word) 2 0x41400000 (100, 0) kTextAlignmentLeft 0
            False))"
proof (intro conjI)
  have "drop_bit 6 (0 :: uint32_t) \<noteq> drop_bit 6 0x40"
    by simp
  then show "\<not> operator_eq
      (FontBufferParameters_init 0 (1 :: 32 word) 2 0x41400000 (100, 0) kTextAlignmentLeft 0 False)
      (FontBufferParameters_init 0x40 (1 :: 32 word) 2 0x41400000 (100, 0) kTextAlignmentLeft 0
        False)"
    by (simp add: operator_eq_init)
qed (simp_all add: operator_hash_def Let_def FontBufferParameters_init_def
    FontBufferParameters_default_def set_flags_text_alignement_def set_flags_glyph_flags_def
    set_flags_caret_info_def kTextAlignmentLeft_def vec_x_def vec_y_def xor_cancel_right
    xor_eq_self)

section \<open>Properties of \<^verbatim>\<open>FontMetrics\<close>\<close>

lemma apply_update_ok:
  assumes "metrics_ok m" and "apply_update m u = Inr m'"
  shows "metrics_ok m'"
  using assms
  by (cases u)
    (auto simp: metrics_ok_def set_base_line_def set_internal_leading_def set_ascender_def
      set_descender_def set_external_leading_def split: if_splits)

lemma apply_updates_ok:
  assumes "metrics_ok m" and "apply_updates m us = Inr m'"
  shows "metrics_ok m'"
  using assms
proof (induction us arbitrary: m)
  case Nil
  then show ?case
    by simp
next
  case (Cons u us)
  then show ?case
    by (auto split: sum.splits dest: apply_update_ok)
qed

lemma apply_update_refused:
  assumes "\<not> update_allowed u"
  shows "apply_update m u = Inl AssertionFailed"
  using assms
  by (cases u)
    (simp_all add: set_internal_leading_def set_ascender_def set_descender_def
      set_external_leading_def)

text \<open>
  Claim C7. The sign constraints hold for a default-constructed \<^verbatim>\<open>FontMetrics\<close>, for
  one the five-argument constructor returns, and after every sequence of setter calls
  that returns, started from metrics that satisfy them. A constructor call or a setter
  call whose argument violates a constraint fails its assertion instead of returning.
\<close>

theorem FontMetrics_sign_constraints:
  "metrics_ok FontMetrics_default
   \<and> (FontMetrics_init bl il asc desc el = Inr m0 \<longrightarrow> metrics_ok m0)
   \<and> (metrics_ok m \<and> apply_updates m us = Inr m' \<longrightarrow> metrics_ok m')
   \<and> (\<not> (0 \<le>s il \<and> 0 \<le>s asc \<and> desc \<le>s 0 \<and> el \<le>s 0)
        \<longrightarrow> FontMetrics_init bl il asc desc el = Inl AssertionFailed)
   \<and> (\<not> update_allowed u \<longrightarrow> apply_update m u = Inl AssertionFailed)"
proof (intro conjI impI)
  show "metrics_ok FontMetrics_default"
    by (simp add: metrics_ok_def FontMetrics_default_def)
next
  assume "FontMetrics_init bl il asc desc el = Inr m0"
  then show "metrics_ok m0"
    by (auto simp: FontMetrics_init_def metrics_ok_def split: if_splits)
next
  assume "metrics_ok m \<and> apply_updates m us = Inr m'"
  then show "metrics_ok m'"
    by (auto intro: apply_updates_ok)
next
  assume "\<not> (0 \<le>s il \<and> 0 \<le>s asc \<and> desc \<le>s 0 \<and> el \<le>s 0)"
  then show "FontMetrics_init bl il asc desc el = Inl AssertionFailed"
    by (auto simp: FontMetrics_init_def)
next
  assume "\<not> update_allowed u"
  then show "apply_update m u = Inl AssertionFailed"
    by (rule apply_update_refused)
qed

text \<open>
  Metrics constructed as (2, 1, 10, -3, 0), then given ascender 12 and external leading
  -1, satisfy the constraints; a constructor call with descender 3 and a call
  \<^verbatim>\<open>set_ascender(-1)\<close> fail.
\<close>

theorem FontMetrics_sign_constraints_witness:
  "FontMetrics_init 2 1 10 (- 3) 0 =
     Inr \<lparr>base_line = 2, internal_leading = 1, ascender = 10, descender = - 3,
          external_leading = 0\<rparr>
   \<and> apply_updates
       \<lparr>base_line = 2, internal_leading = 1, ascender = 10, descender = - 3,
        external_leading = 0\<rparr>
       [SetAscender 12, SetExternalLeading (- 1)] =
     Inr \<lparr>base_line = 2, internal_leading = 1, ascender = 12, descender = - 3,
          external_leading = - 1\<rparr>
   \<and> metrics_ok
       \<lparr>base_line = 2, internal_leading = 1, ascender = 12, descender = - 3,
        external_leading = - 1\<rparr>
   \<and> FontMetrics_init 2 1 10 3 0 = Inl AssertionFailed
   \<and> set_ascender (- 1) FontMetrics_default = Inl AssertionFailed"
  using
    FontMetrics_sign_constraints
      [of 2 1 10 "- 3" 0
        "\<lparr>base_line = 2, internal_leading = 1, ascender = 10, descender = - 3,
          external_leading = 0\<rparr>"
        "\<lparr>base_line = 2, internal_leading = 1, ascender = 10, descender = - 3,
          external_leading = 0\<rparr>"
        "[SetAscender 12, SetExternalLeading (- 1)]"
        "\<lparr>base_line = 2, internal_leading = 1, ascender = 12, descender = - 3,
          external_leading = - 1\<rparr>"
        "SetAscender (- 1)"]
    FontMetrics_sign_constraints
      [of 2 1 10 3 0 FontMetrics_default FontMetrics_default "[]" FontMetrics_default
        "SetAscender (- 1)"]
  by (simp add: FontMetrics_init_def set_ascender_def set_external_leading_def
      FontMetrics_default_def metrics_ok_def word_sle_eq)

subsection \<open>The total height under growing metrics\<close>

lemma total_int_nonneg: "metrics_ok m \<Longrightarrow> 0 \<le> total_int m"
  by (simp add: metrics_ok_def total_int_def word_sle_eq)

lemma total_as_int: "total m = word_of_int (total_int m)"
  by (simp add: total_def total_int_def)

lemma sint_total:
  assumes "metrics_ok m" and "total_int m < 2 ^ 31"
  shows "sint (total m) = total_int m"
proof -
  have "sint (total m) = signed_take_bit 31 (total_int m)"
    by (simp add: total_as_int sint_sbintrunc')
  also have "\<dots> = total_int m"
    using assms total_int_nonneg [of m] by (intro signed_take_bit_int_eq_self) auto
  finally show ?thesis .
qed

lemma growth_step:
  assumes "growth_only m u" and "apply_update m u = Inr m'"
  shows "total_int m \<le> total_int m'"
  using assms
  by (cases u)
    (auto simp: total_int_def set_base_line_def set_internal_leading_def set_ascender_def
      set_descender_def set_external_leading_def word_sle_eq split: if_splits)

lemma growth_seq:
  assumes "growth_only_seq m us" and "apply_updates m us = Inr m'"
  shows "total_int m \<le> total_int m'"
  using assms
proof (induction us arbitrary: m)
  case Nil
  then show ?case
    by simp
next
  case (Cons u us)
  from Cons.prems obtain m1 where m1: "apply_update m u = Inr m1"
    and rest: "apply_updates m1 us = Inr m'"
    by (auto split: sum.splits)
  with Cons.prems have "growth_only m u" "growth_only_seq m1 us"
    by simp_all
  then have "total_int m \<le> total_int m1" "total_int m1 \<le> total_int m'"
    using m1 rest Cons.IH by (auto intro: growth_step)
  then show ?case
    by simp
qed

text \<open>
  Claim C8, as stated: \<^verbatim>\<open>total()\<close> is invariant under updates that only increase
  the magnitude of the internal leading or the ascender, or only decrease the magnitude
  of the descender or the external leading. It is not: raising the ascender of the
  default metrics from 0 to 10 raises the total from 0 to 10, and moving the descender of
  (0, 0, 0, -5, 0) to -3 lowers the total from 5 to 3.
\<close>

theorem total_not_invariant:
  "total FontMetrics_default = 0
   \<and> set_ascender 10 FontMetrics_default =
       Inr \<lparr>base_line = 0, internal_leading = 0, ascender = 10, descender = 0,
            external_leading = 0\<rparr>
   \<and> total \<lparr>base_line = 0, internal_leading = 0, ascender = 10, descender = 0,
            external_leading = 0\<rparr> = 10
   \<and> total \<lparr>base_line = 0, internal_leading = 0, ascender = 0, descender = - 5,
            external_leading = 0\<rparr> = 5
   \<and> set_descender (- 3)
       \<lparr>base_line = 0, internal_leading = 0, ascender = 0, descender = - 5,
        external_leading = 0\<rparr> =
       Inr \<lparr>base_line = 0, internal_leading = 0, ascender = 0, descender = - 3,
            external_leading = 0\<rparr>
   \<and> total \<lparr>base_line = 0, internal_leading = 0, ascender = 0, descender = - 3,
            external_leading = 0\<rparr> = 3"
  by (simp add: total_def FontMetrics_default_def set_ascender_def set_descender_def
      word_sle_eq)

text \<open>
  Claim C8, amended: \<^verbatim>\<open>total()\<close> never decreases under a sequence of setter calls
  each of which keeps or raises the internal leading or the ascender, or keeps or lowers
  the descender or the external leading (so that every magnitude grows), started from
  metrics that satisfy the sign constraints, as long as the final total fits an
  \<^verbatim>\<open>int32_t\<close>.
\<close>

theorem total_monotone:
  assumes "metrics_ok m" and "growth_only_seq m us" and "apply_updates m us = Inr m'"
    and "total_int m' < 2 ^ 31"
  shows "sint (total m) \<le> sint (total m')"
proof -
  have le: "total_int m \<le> total_int m'"
    using assms(2,3) by (rule growth_seq)
  have "metrics_ok m'"
    using assms(1,3) by (rule apply_updates_ok)
  then have "sint (total m') = total_int m'"
    using assms(4) by (rule sint_total)
  moreover have "sint (total m) = total_int m"
    using assms(1) le assms(4) by (intro sint_total) auto
  ultimately show ?thesis
    using le by simp
qed

text \<open>
  From (0, 1, 10, -3, 0), of total 14, the calls \<^verbatim>\<open>set_ascender(12)\<close> and
  \<^verbatim>\<open>set_descender(-4)\<close> lead to total 17.
\<close>

theorem total_monotone_witness:
  "metrics_ok
     \<lparr>base_line = 0, internal_leading = 1, ascender = 10, descender = - 3,
      external_leading = 0\<rparr>
   \<and> growth_only_seq
     \<lparr>base_line = 0, internal_leading = 1, ascender = 10, descender = - 3,
      external_leading = 0\<rparr> [SetAscender 12, SetDescender (- 4)]
   \<and> apply_updates
     \<lparr>base_line = 0, internal_leading = 1, ascender = 10, descender = - 3,
      external_leading = 0\<rparr> [SetAscender 12, SetDescender (- 4)] =
     Inr \<lparr>base_line = 0, internal_leading = 1, ascender = 12, descender = - 4,
          external_leading = 0\<rparr>
   \<and> sint (total \<lparr>base_line = 0, internal_leading = 1, ascender = 10, descender = - 3,
          external_leading = 0\<rparr>) = 14
   \<and> sint (total \<lparr>base_line = 0, internal_leading = 1, ascender = 12, descender = - 4,
          external_leading = 0\<rparr>) = 17
   \<and> sint (total \<lparr>base_line = 0, internal_leading = 1, ascender = 10, descender = - 3,
          external_leading = 0\<rparr>)
     \<le> sint (total \<lparr>base_line = 0, internal_leading = 1, ascender = 12, descender = - 4,
          external_leading = 0\<rparr>)"
proof -
  let ?m = "\<lparr>base_line = 0, internal_leading = 1, ascender = 10, descender = - 3,
      external_leading = 0\<rparr>"
  let ?m' = "\<lparr>base_line = 0, internal_leading = 1, ascender = 12, descender = - 4,
      external_leading = 0\<rparr>"
  let ?us = "[SetAscender 12, SetDescender (- 4)]"
  have ok: "metrics_ok ?m"
    by (simp add: metrics_ok_def word_sle_eq)
  have grow: "growth_only_seq ?m ?us"
    by (simp add: set_ascender_def set_descender_def word_sle_eq)
  have run: "apply_updates ?m ?us = Inr ?m'"
    by (simp add: set_ascender_def set_descender_def word_sle_eq)
  have fits: "total_int ?m' < 2 ^ 31"
    by (simp add: total_int_def)
  have totals: "sint (total ?m) = 14" "sint (total ?m') = 17"
    by (simp_all add: total_def)
  from total_monotone [OF ok grow run fits] ok grow run totals show ?thesis
    by simp
qed

section \<open>Properties of \<^verbatim>\<open>FontBuffer\<close>\<close>

subsection \<open>Vectors\<close>

lemma and_then_Inr [simp]: "and_then (Inr x) f = f x"
  by (simp add: and_then_def)

lemma and_then_Inl [simp]: "and_then (Inl e) f = Inl e"
  by (simp add: and_then_def)

lemma and_then_eq_Inr: "(and_then r f = Inr y) = (\<exists>x. r = Inr x \<and> f x = Inr y)"
  by (cases r) simp_all

text \<open>A \<^verbatim>\<open>reserve\<close> that returns keeps the elements and gives at least the capacity asked for.\<close>

lemma reserve_Inr:
  assumes "reserve grants elem_size n v = Inr v'"
  shows "elems v' = elems v \<and> capacity v' = max n (capacity v)"
  using assms by (auto simp: reserve_def split: if_splits)

text \<open>A \<^verbatim>\<open>push_back\<close> that returns has appended its element and left a capacity above 0.\<close>

lemma push_back_Inr:
  assumes "push_back grants elem_size x v = Inr v'"
  shows "elems v' = elems v @ [x] \<and> 0 < capacity v'"
  using assms by (auto simp: push_back_def split: if_splits)

lemma push_back_all_Inr:
  assumes "push_back_all grants elem_size xs v = Inr v'"
  shows "elems v' = elems v @ xs"
  using assms
proof (induction xs arbitrary: v)
  case Nil
  then show ?case
    by simp
next
  case (Cons x xs)
  from Cons.prems obtain v1 where v1: "push_back grants elem_size x v = Inr v1"
    and rest: "push_back_all grants elem_size xs v1 = Inr v'"
    by (auto simp: and_then_eq_Inr)
  from rest have "elems v' = elems v1 @ xs"
    by (rule Cons.IH)
  with push_back_Inr [OF v1] show ?case
    by simp
qed

subsection \<open>The constructor\<close>

text \<open>
  A constructor that returns has made four empty arrays; the capacity of the caret
  positions is \<^verbatim>\<open>size + 1\<close> in \<^verbatim>\<open>uint32_t\<close> with caret information and 0 without.
\<close>

lemma FontBuffer_init_Inr:
  assumes "FontBuffer_init grants sz caret_info = Inr b"
  shows "elems (indices b) = [] \<and> elems (vertices b) = [] \<and> elems (code_points b) = []
    \<and> elems (caret_positions b) = []
    \<and> capacity (caret_positions b) = (if caret_info then unat (sz + 1) else 0)"
proof -
  from assms obtain i v c p where
    i: "reserve grants sizeof_uint16_t (unat (sz * kIndiciesPerCodePoint)) vector_empty = Inr i"
    and v: "reserve grants sizeof_FontVertex (unat (sz * kVerticesPerCodePoint)) vector_empty
      = Inr v"
    and c: "reserve grants sizeof_uint32_t (unat sz) vector_empty = Inr c"
    and p: "(if caret_info then reserve grants sizeof_vec2i (unat (sz + 1)) vector_empty
      else Inr vector_empty) = Inr p"
    and b: "b = FontBuffer_default
      \<lparr>indices := i, vertices := v, code_points := c, caret_positions := p\<rparr>"
    unfolding FontBuffer_init_def and_then_eq_Inr by auto
  have "elems p = [] \<and> capacity p = (if caret_info then unat (sz + 1) else 0)"
  proof (cases caret_info)
    case True
    with p have "reserve grants sizeof_vec2i (unat (sz + 1)) vector_empty = Inr p"
      by simp
    from reserve_Inr [OF this] True show ?thesis
      by (simp add: vector_empty_def)
  next
    case False
    with p show ?thesis
      by (auto simp: vector_empty_def)
  qed
  with reserve_Inr [OF i] reserve_Inr [OF v] reserve_Inr [OF c] show ?thesis
    by (simp add: b vector_empty_def)
qed

text \<open>
  The vertices of \<^verbatim>\<open>FontBuffer(0xFFFFFFFF, ...)\<close> are a request for \<open>4294967292\<close>
  elements of 20 bytes, \<open>85899345840\<close> bytes or about 80 GiB (the indices are about
  8 GiB more, the code points 16 GiB). An allocator that does not grant a block of this
  size ends the constructor with \<^verbatim>\<open>std::bad_alloc\<close>.
\<close>

lemma vertices_request_max_size:
  "unat ((0xFFFFFFFF :: uint32_t) * kVerticesPerCodePoint) * sizeof_FontVertex = 85899345840"
  by (simp add: kVerticesPerCodePoint_def sizeof_FontVertex_def)


text \<open>
  Where the allocator does grant these blocks, the request \<^verbatim>\<open>size + 1\<close> for the caret
  positions is computed in \<^verbatim>\<open>uint32_t\<close> and is 0: nothing is reserved for them.
\<close>

lemma FontBuffer_init_max_size_granted:
  "case FontBuffer_init (grants_up_to (2 ^ 37)) 0xFFFFFFFF True of
     Inl e \<Rightarrow> False
   | Inr b \<Rightarrow> capacity (caret_positions b) = 0 \<and> capacity (vertices b) = 4294967292"
  by (simp add: FontBuffer_init_def reserve_def vector_empty_def grants_up_to_def
      kIndiciesPerCodePoint_def kVerticesPerCodePoint_def sizeof_uint16_t_def
      sizeof_FontVertex_def sizeof_uint32_t_def sizeof_vec2i_def FontBuffer_default_def)


subsection \<open>Appending a glyph\<close>

text \<open>What an append that returns has done to the four arrays.\<close>

lemma AddCodepoint_Inr:
  assumes "AddCodepoint grants cp b = Inr b'"
  shows "elems (code_points b') = elems (code_points b) @ [cp] \<and> vertices b' = vertices b
    \<and> indices b' = indices b \<and> caret_positions b' = caret_positions b"
proof -
  from assms obtain c where c: "push_back grants sizeof_uint32_t cp (code_points b) = Inr c"
    and b': "b' = b\<lparr>code_points := c\<rparr>"
    unfolding AddCodepoint_def and_then_eq_Inr by auto
  from push_back_Inr [OF c] show ?thesis
    by (simp add: b')
qed

lemma AddVertices_Inr:
  assumes "AddVertices grants (v0, v1, v2, v3) b = Inr b'"
  shows "elems (vertices b') = elems (vertices b) @ [v0, v1, v2, v3]
    \<and> code_points b' = code_points b \<and> indices b' = indices b
    \<and> caret_positions b' = caret_positions b"
proof -
  from assms obtain v where
    v: "push_back_all grants sizeof_FontVertex [v0, v1, v2, v3] (vertices b) = Inr v"
    and b': "b' = b\<lparr>vertices := v\<rparr>"
    by (auto simp: AddVertices_def and_then_eq_Inr simp del: push_back_all.simps)
  from push_back_all_Inr [OF v] show ?thesis
    by (simp add: b')
qed

lemma length_triangle_indices: "length (triangle_indices triangles) = 6"
  by (cases triangles) (auto simp: triangle_indices_def)

lemma append_glyph_Inr:
  assumes "append_glyph grants cp (v0, v1, v2, v3) triangles b = Inr b'"
  shows "elems (code_points b') = elems (code_points b) @ [cp]
    \<and> elems (vertices b') = elems (vertices b) @ [v0, v1, v2, v3]
    \<and> elems (indices b') = elems (indices b) @ triangle_indices triangles
    \<and> caret_positions b' = caret_positions b"
proof -
  from assms obtain b1 b2 i where b1: "AddCodepoint grants cp b = Inr b1"
    and b2: "AddVertices grants (v0, v1, v2, v3) b1 = Inr b2"
    and i: "push_back_all grants sizeof_uint16_t (triangle_indices triangles) (indices b2)
      = Inr i"
    and b': "b' = b2\<lparr>indices := i\<rparr>"
    unfolding append_glyph_def and_then_eq_Inr by (auto simp del: push_back_all.simps)
  from AddCodepoint_Inr [OF b1] AddVertices_Inr [OF b2] push_back_all_Inr [OF i] show ?thesis
    by (simp add: b')
qed

lemma Verify_iff:
  "(Verify b = Inr True) =
     (vector_size (vertices b) = 4 * vector_size (code_points b)
      \<and> vector_size (indices b) = 6 * vector_size (code_points b))"
  by (auto simp: Verify_def kVerticesPerCodePoint_def kIndiciesPerCodePoint_def)

lemma append_glyph_Verify:
  assumes "Verify b = Inr True" and "append_glyph grants cp quad triangles b = Inr b'"
  shows "Verify b' = Inr True
    \<and> vector_size (code_points b') = vector_size (code_points b) + 1
    \<and> vector_size (vertices b') = vector_size (vertices b) + 4
    \<and> vector_size (indices b') = vector_size (indices b) + 6"
proof -
  obtain v0 v1 v2 v3 where quad: "quad = (v0, v1, v2, v3)"
    by (cases quad) auto
  from assms(2) have "append_glyph grants cp (v0, v1, v2, v3) triangles b = Inr b'"
    by (simp add: quad)
  from append_glyph_Inr [OF this] assms(1) show ?thesis
    by (simp add: Verify_iff vector_size_def length_triangle_indices)
qed

lemma append_glyphs_Verify:
  assumes "Verify b = Inr True" and "append_glyphs grants gs b = Inr b'"
  shows "Verify b' = Inr True
    \<and> vector_size (code_points b') = vector_size (code_points b) + length gs"
  using assms
proof (induction gs arbitrary: b)
  case Nil
  then show ?case
    by simp
next
  case (Cons g gs)
  obtain cp quad triangles where g: "g = (cp, quad, triangles)"
    by (cases g) auto
  from Cons.prems(2) obtain b1 where b1: "append_glyph grants cp quad triangles b = Inr b1"
    and rest: "append_glyphs grants gs b1 = Inr b'"
    by (auto simp: g and_then_eq_Inr)
  from append_glyph_Verify [OF Cons.prems(1) b1]
  have ok: "Verify b1 = Inr True"
    and n: "vector_size (code_points b1) = vector_size (code_points b) + 1"
    by simp_all
  from Cons.IH [OF ok rest] n show ?case
    by simp
qed

subsection \<open>The array lengths and \<^verbatim>\<open>Verify\<close>\<close>

text \<open>
  Claim C3: after any mutation of a \<^verbatim>\<open>FontBuffer\<close> completes there are four vertices
  and six indices for each code point; the equations are checked by \<^verbatim>\<open>Verify\<close>, not
  repaired. The mutation that changes the three arrays is the append of a glyph: one
  code point, four vertices, six indices.
  \<^item> A default-constructed buffer and a buffer a constructor returns pass \<^verbatim>\<open>Verify\<close>.
  \<^item> A buffer that passes \<^verbatim>\<open>Verify\<close> passes it again after a completed append of a
    glyph, which has made it one code point, four vertices and six indices longer, and
    after a completed append of any sequence of glyphs.
  \<^item> \<^verbatim>\<open>Verify\<close> returns true exactly when both equations hold and fails an assertion
    otherwise; it assigns to nothing. Between the steps of an append, after
    \<^verbatim>\<open>AddCodepoint\<close> and before the vertices and indices of the glyph, the equations do
    not hold and \<^verbatim>\<open>Verify\<close> fails the assertion.
\<close>

theorem Verify_after_append:
  "Verify FontBuffer_default = Inr True
   \<and> (FontBuffer_init grants sz caret_info = Inr b0 \<longrightarrow> Verify b0 = Inr True)
   \<and> (Verify b = Inr True \<and> append_glyph grants cp quad triangles b = Inr b'
        \<longrightarrow> Verify b' = Inr True
            \<and> vector_size (code_points b') = vector_size (code_points b) + 1
            \<and> vector_size (vertices b') = vector_size (vertices b) + 4
            \<and> vector_size (indices b') = vector_size (indices b) + 6)
   \<and> (Verify b = Inr True \<and> append_glyphs grants gs b = Inr b''
        \<longrightarrow> Verify b'' = Inr True
            \<and> vector_size (code_points b'') = vector_size (code_points b) + length gs)
   \<and> Verify b =
       (if vector_size (vertices b) = 4 * vector_size (code_points b)
           \<and> vector_size (indices b) = 6 * vector_size (code_points b)
        then Inr True else Inl AssertionFailed)
   \<and> (Verify b = Inr True \<and> AddCodepoint grants cp b = Inr b1
        \<longrightarrow> Verify b1 = Inl AssertionFailed)"
proof (intro conjI impI)
  show "Verify FontBuffer_default = Inr True"
    by (simp add: Verify_iff FontBuffer_default_def vector_empty_def vector_size_def)
next
  assume "FontBuffer_init grants sz caret_info = Inr b0"
  from FontBuffer_init_Inr [OF this] show "Verify b0 = Inr True"
    by (simp add: Verify_iff vector_size_def)
next
  assume a: "Verify b = Inr True \<and> append_glyph grants cp quad triangles b = Inr b'"
  then have 1: "Verify b = Inr True"
    and 2: "append_glyph grants cp quad triangles b = Inr b'"
    by simp_all
  from append_glyph_Verify [OF 1 2]
  show "Verify b' = Inr True"
    and "vector_size (code_points b') = vector_size (code_points b) + 1"
    and "vector_size (vertices b') = vector_size (vertices b) + 4"
    and "vector_size (indices b') = vector_size (indices b) + 6"
    by simp_all
next
  assume a: "Verify b = Inr True \<and> append_glyphs grants gs b = Inr b''"
  then have 1: "Verify b = Inr True" and 2: "append_glyphs grants gs b = Inr b''"
    by simp_all
  from append_glyphs_Verify [OF 1 2]
  show "Verify b'' = Inr True"
    and "vector_size (code_points b'') = vector_size (code_points b) + length gs"
    by simp_all
next
  show "Verify b =
      (if vector_size (vertices b) = 4 * vector_size (code_points b)
          \<and> vector_size (indices b) = 6 * vector_size (code_points b)
       then Inr True else Inl AssertionFailed)"
    by (auto simp: Verify_def kVerticesPerCodePoint_def kIndiciesPerCodePoint_def)
next
  assume a: "Verify b = Inr True \<and> AddCodepoint grants cp b = Inr b1"
  then have 1: "Verify b = Inr True" and 2: "AddCodepoint grants cp b = Inr b1"
    by simp_all
  from AddCodepoint_Inr [OF 2] 1 show "Verify b1 = Inl AssertionFailed"
    by (auto simp: Verify_def Verify_iff vector_size_def kVerticesPerCodePoint_def
        kIndiciesPerCodePoint_def)
qed

text \<open>
  With an allocator that grants blocks up to 1024 bytes: the constructor for one glyph
  returns a buffer that passes \<^verbatim>\<open>Verify\<close>; the append of the glyph of the code point
  65 to the default-constructed buffer returns a buffer of one code point, four
  vertices and six indices, which passes \<^verbatim>\<open>Verify\<close>; the append of two glyphs
  returns one of 2 code points, 8 vertices and 12 indices, which passes it as well;
  after \<^verbatim>\<open>AddCodepoint(65)\<close> alone \<^verbatim>\<open>Verify\<close> fails.
\<close>

theorem Verify_after_append_witness:
  "\<not> isl (FontBuffer_init (grants_up_to 1024) 1 False)
   \<and> Verify (projr (FontBuffer_init (grants_up_to 1024) 1 False)) = Inr True
   \<and> \<not> isl
       (append_glyph (grants_up_to 1024) 65
         (FontVertex_init 0 0 0 0 0, FontVertex_init 0 0 0 0 0,
          FontVertex_init 0 0 0 0 0, FontVertex_init 0 0 0 0 0)
         ((0, 1, 2), (1, 3, 2)) FontBuffer_default)
   \<and> Verify (projr
       (append_glyph (grants_up_to 1024) 65
         (FontVertex_init 0 0 0 0 0, FontVertex_init 0 0 0 0 0,
          FontVertex_init 0 0 0 0 0, FontVertex_init 0 0 0 0 0)
         ((0, 1, 2), (1, 3, 2)) FontBuffer_default)) = Inr True
   \<and> elems (code_points (projr
       (append_glyph (grants_up_to 1024) 65
         (FontVertex_init 0 0 0 0 0, FontVertex_init 0 0 0 0 0,
          FontVertex_init 0 0 0 0 0, FontVertex_init 0 0 0 0 0)
         ((0, 1, 2), (1, 3, 2)) FontBuffer_default))) = [65]
   \<and> vector_size (vertices (projr
       (append_glyph (grants_up_to 1024) 65
         (FontVertex_init 0 0 0 0 0, FontVertex_init 0 0 0 0 0,
          FontVertex_init 0 0 0 0 0, FontVertex_init 0 0 0 0 0)
         ((0, 1, 2), (1, 3, 2)) FontBuffer_default))) = 4
   \<and> elems (indices (projr
       (append_glyph (grants_up_to 1024) 65
         (FontVertex_init 0 0 0 0 0, FontVertex_init 0 0 0 0 0,
          FontVertex_init 0 0 0 0 0, FontVertex_init 0 0 0 0 0)
         ((0, 1, 2), (1, 3, 2)) FontBuffer_default))) = [0, 1, 2, 1, 3, 2]
   \<and> \<not> isl
       (append_glyphs (grants_up_to 1024)
        [(65, (FontVertex_init 0 0 0 0 0, FontVertex_init 0 0 0 0 0,
          FontVertex_init 0 0 0 0 0, FontVertex_init 0 0 0 0 0),
          ((0, 1, 2), (1, 3, 2))),
         (66, (FontVertex_init 0 0 0 0 0, FontVertex_init 0 0 0 0 0,
          FontVertex_init 0 0 0 0 0, FontVertex_init 0 0 0 0 0),
          ((4, 5, 6), (5, 7, 6)))] FontBuffer_default)
   \<and> Verify (projr
       (append_glyphs (grants_up_to 1024)
        [(65, (FontVertex_init 0 0 0 0 0, FontVertex_init 0 0 0 0 0,
          FontVertex_init 0 0 0 0 0, FontVertex_init 0 0 0 0 0),
          ((0, 1, 2), (1, 3, 2))),
         (66, (FontVertex_init 0 0 0 0 0, FontVertex_init 0 0 0 0 0,
          FontVertex_init 0 0 0 0 0, FontVertex_init 0 0 0 0 0),
          ((4, 5, 6), (5, 7, 6)))] FontBuffer_default)) = Inr True
   \<and> vector_size (code_points (projr
       (append_glyphs (grants_up_to 1024)
        [(65, (FontVertex_init 0 0 0 0 0, FontVertex_init 0 0 0 0 0,
          FontVertex_init 0 0 0 0 0, FontVertex_init 0 0 0 0 0),
          ((0, 1, 2), (1, 3, 2))),
         (66, (FontVertex_init 0 0 0 0 0, FontVertex_init 0 0 0 0 0,
          FontVertex_init 0 0 0 0 0, FontVertex_init 0 0 0 0 0),
          ((4, 5, 6), (5, 7, 6)))] FontBuffer_default))) = 2
   \<and> vector_size (vertices (projr
       (append_glyphs (grants_up_to 1024)
        [(65, (FontVertex_init 0 0 0 0 0, FontVertex_init 0 0 0 0 0,
          FontVertex_init 0 0 0 0 0, FontVertex_init 0 0 0 0 0),
          ((0, 1, 2), (1, 3, 2))),
         (66, (FontVertex_init 0 0 0 0 0, FontVertex_init 0 0 0 0 0,
          FontVertex_init 0 0 0 0 0, FontVertex_init 0 0 0 0 0),
          ((4, 5, 6), (5, 7, 6)))] FontBuffer_default))) = 8
   \<and> vector_size (indices (projr
       (append_glyphs (grants_up_to 1024)
        [(65, (FontVertex_init 0 0 0 0 0, FontVertex_init 0 0 0 0 0,
          FontVertex_init 0 0 0 0 0, FontVertex_init 0 0 0 0 0),
          ((0, 1, 2), (1, 3, 2))),
         (66, (FontVertex_init 0 0 0 0 0, FontVertex_init 0 0 0 0 0,
          FontVertex_init 0 0 0 0 0, FontVertex_init 0 0 0 0 0),
          ((4, 5, 6), (5, 7, 6)))] FontBuffer_default))) = 12
   \<and> \<not> isl (AddCodepoint (grants_up_to 1024) 65 FontBuffer_default)
   \<and> Verify (projr (AddCodepoint (grants_up_to 1024) 65 FontBuffer_default)) = Inl AssertionFailed"
  using Verify_after_append
    [where grants = "grants_up_to 1024" and sz = 1 and caret_info = False
       and ?b0.0 = "projr (FontBuffer_init (grants_up_to 1024) 1 False)"
       and b = FontBuffer_default and cp = 65
       and quad = "(FontVertex_init 0 0 0 0 0, FontVertex_init 0 0 0 0 0,
          FontVertex_init 0 0 0 0 0, FontVertex_init 0 0 0 0 0)"
       and triangles = "((0, 1, 2), (1, 3, 2))"
       and b' = "projr
         (append_glyph (grants_up_to 1024) 65
         (FontVertex_init 0 0 0 0 0, FontVertex_init 0 0 0 0 0,
          FontVertex_init 0 0 0 0 0, FontVertex_init 0 0 0 0 0)
         ((0, 1, 2), (1, 3, 2)) FontBuffer_default)"
       and gs = "[(65, (FontVertex_init 0 0 0 0 0, FontVertex_init 0 0 0 0 0,
          FontVertex_init 0 0 0 0 0, FontVertex_init 0 0 0 0 0),
          ((0, 1, 2), (1, 3, 2))),
         (66, (FontVertex_init 0 0 0 0 0, FontVertex_init 0 0 0 0 0,
          FontVertex_init 0 0 0 0 0, FontVertex_init 0 0 0 0 0),
          ((4, 5, 6), (5, 7, 6)))]"
       and b'' = "projr
         (append_glyphs (grants_up_to 1024)
        [(65, (FontVertex_init 0 0 0 0 0, FontVertex_init 0 0 0 0 0,
          FontVertex_init 0 0 0 0 0, FontVertex_init 0 0 0 0 0),
          ((0, 1, 2), (1, 3, 2))),
         (66, (FontVertex_init 0 0 0 0 0, FontVertex_init 0 0 0 0 0,
          FontVertex_init 0 0 0 0 0, FontVertex_init 0 0 0 0 0),
          ((4, 5, 6), (5, 7, 6)))] FontBuffer_default)"
       and ?b1.0 = "projr (AddCodepoint (grants_up_to 1024) 65 FontBuffer_default)"]
  by (simp add: FontBuffer_init_def append_glyph_def AddCodepoint_def AddVertices_def
      push_back_def reserve_def grants_up_to_def triangle_indices_def vector_size_def
      vector_empty_def FontBuffer_default_def sizeof_uint16_t_def sizeof_uint32_t_def
      sizeof_FontVertex_def kIndiciesPerCodePoint_def kVerticesPerCodePoint_def)

subsection \<open>Caret positions\<close>

text \<open>What \<^verbatim>\<open>GetCaretPosition\<close> does at each index.\<close>

lemma GetCaretPosition_cases:
  "GetCaretPosition b i =
     (if capacity (caret_positions b) = 0 \<or> vector_size (caret_positions b) < i
      then Inr kCaretPositionInvalid
      else if i = vector_size (caret_positions b) then Inl OutOfBoundsRead
      else Inr (elems (caret_positions b) ! i))"
  by (auto simp: GetCaretPosition_def)

text \<open>
  Claim C9. \<^verbatim>\<open>GetCaretPosition(index)\<close> should return \<^verbatim>\<open>kCaretPositionInvalid\<close> for
  an index that is not below the number of stored caret positions, and never read past
  the end. The guard of line 977 is \<^verbatim>\<open>index > caret_positions_.size()\<close>: the index
  equal to the size passes it and is read. The constructor for one glyph with caret
  information (its four requests are of 12, 80, 4 and 16 bytes) returns a buffer of
  capacity 2 and no caret position, and index 0 is read past the end.
\<close>

theorem GetCaretPosition_reads_past_end:
  "(case FontBuffer_init (grants_up_to 1024) 1 True of
      Inl e \<Rightarrow> False
    | Inr b \<Rightarrow>
        GetCaretPosition b 0 = Inl OutOfBoundsRead
        \<and> elems (caret_positions b) = []
        \<and> capacity (caret_positions b) = 2)"
  by (simp add: GetCaretPosition_cases FontBuffer_init_def FontBuffer_default_def
      vector_empty_def reserve_def vector_size_def grants_up_to_def
      kIndiciesPerCodePoint_def kVerticesPerCodePoint_def sizeof_uint16_t_def
      sizeof_FontVertex_def sizeof_uint32_t_def sizeof_vec2i_def)



section \<open>Properties of \<^verbatim>\<open>GetBuffer\<close>\<close>

lemma CreateBuffer_lookups:
  "fst (CreateBuffer L c gs acc) =
     (if exhausted (lookups L c gs) then None else Some (acc @ placed (lookups L c gs)))"
proof (induction gs arbitrary: c acc)
  case Nil
  then show ?case
    by (simp add: exhausted_def)
next
  case (Cons g gs)
  obtain r c' where step: "L c g = (r, c')"
    by (cases "L c g")
  show ?case
  proof (cases r)
    case (Entry e)
    with step Cons.IH [of c' "acc @ [(g, e)]"] show ?thesis
      by (simp add: exhausted_def)
  next
    case GlyphNotFound
    with step Cons.IH [of c' acc] show ?thesis
      by (simp add: exhausted_def)
  next
    case CacheFull
    with step show ?thesis
      by (simp add: exhausted_def)
  qed
qed

text \<open>
  Claim C4. When a glyph of the string meets an exhausted glyph cache, \<^verbatim>\<open>GetBuffer\<close>
  returns the miss; when none does, it returns the buffer of all placed glyphs of the
  whole string; so a buffer it returns is never a part of the string's buffer. The call
  makes no second attempt: what it returns is decided by one lookup of each glyph.
  Recovery is the caller's: after a miss, flushing the glyph cache with
  \<^verbatim>\<open>FlushAndUpdate\<close> and calling again gives what \<^verbatim>\<open>GetBuffer\<close> gives for the whole
  string in the cleared cache, again the whole buffer or a miss.
\<close>

theorem GetBuffer_miss_or_complete:
  "(exhausted (lookups L c str) \<longrightarrow> fst (GetBuffer L c str) = None)
   \<and> (\<not> exhausted (lookups L c str) \<longrightarrow>
        fst (GetBuffer L c str) = Some (placed (lookups L c str)))
   \<and> (fst (GetBuffer L c str) = Some b \<longrightarrow>
        b = placed (lookups L c str) \<and> \<not> exhausted (lookups L c str))
   \<and> (fst (GetBuffer L c str) = None \<longrightarrow>
        fst (flush_and_retry L cleared c str) =
          (if exhausted (lookups L cleared str) then None
           else Some (placed (lookups L cleared str))))"
proof -
  have "fst (flush_and_retry L cleared c str) = fst (GetBuffer L cleared str)"
    if "fst (GetBuffer L c str) = None"
    using that by (cases "GetBuffer L c str") (simp add: flush_and_retry_def FlushAndUpdate_def)
  then show ?thesis
    by (simp add: GetBuffer_def CreateBuffer_lookups)
qed

text \<open>
  With one free slot the string of code points 65, 66 is a miss, and the retry in a
  cleared cache of two slots gives both glyphs; with two free slots the string 65, 0, 66
  gives the buffer of the two glyphs that a font has.
\<close>

theorem GetBuffer_miss_or_complete_witness:
  "exhausted (lookups slot_cache 1 [65, 66])
   \<and> fst (GetBuffer slot_cache 1 [65, 66]) = None
   \<and> fst (flush_and_retry slot_cache 2 1 [65, 66]) = Some [(65, 2), (66, 1)]
   \<and> \<not> exhausted (lookups slot_cache 2 [65, 0, 66])
   \<and> fst (GetBuffer slot_cache 2 [65, 0, 66]) = Some [(65, 2), (66, 1)]"
  using
    GetBuffer_miss_or_complete
      [where L = slot_cache and c = 1 and str = "[65, 66]" and cleared = 2]
    GetBuffer_miss_or_complete
      [where L = slot_cache and c = 2 and str = "[65, 0, 66]" and b = "[(65, 2), (66, 1)]"]
  by (simp add: slot_cache_def exhausted_def)

end
